theory Spec2Isabelle
  imports Main "HOL-Library.Char_ord" "HOL-Library.List_Lexorder" "HOL-Library.Product_Lexorder"
    "HOL-Library.Sublist" "HOL-Library.AList" "HOL-Library.Multiset"
begin

chapter \<open>The model: PyOS application logic as HOL functions\<close>

text \<open>
  Python integers are \<open>int\<close>, Python strings are \<open>string\<close> (UTF-8 bytes), a Python
  exception is the \<open>Inl\<close> branch of a sum, object fields are record fields and every
  method takes the object and returns the updated one. Values drawn from Python's
  \<open>random\<close> module are parameters of the functions that draw them.
\<close>

datatype py_error =
    IndexError | KeyError | ValueError | TypeError | ZeroDivisionError | OverflowError
  | SyntaxError | AttributeError | FileExistsError | FileNotFoundError
  | NotADirectoryError | IsADirectoryError | OSError | ShutilError | RuntimeError
  | PermissionError

section \<open>Python built-ins used by the applications\<close>

definition WHITESPACE :: "string list" where
  \<comment> \<open>The characters for which \<open>str.isspace()\<close> holds, which are those that
      \<open>str.strip()\<close> removes, in UTF-8: U+0009 to U+000D, U+001C to U+0020, U+0085,
      U+00A0, U+1680, U+2000 to U+200A, U+2028, U+2029, U+202F, U+205F and U+3000.\<close>
  "WHITESPACE =
     map (\<lambda>c. [c]) [CHR 0x09, CHR 0x0A, CHR 0x0B, CHR 0x0C, CHR 0x0D,
                       CHR 0x1C, CHR 0x1D, CHR 0x1E, CHR 0x1F, CHR 0x20]
     @ [[CHR 0xC2, CHR 0x85], [CHR 0xC2, CHR 0xA0], [CHR 0xE1, CHR 0x9A, CHR 0x80]]
     @ map (\<lambda>c. [CHR 0xE2, CHR 0x80, c])
         [CHR 0x80, CHR 0x81, CHR 0x82, CHR 0x83, CHR 0x84, CHR 0x85, CHR 0x86, CHR 0x87,
          CHR 0x88, CHR 0x89, CHR 0x8A, CHR 0xA8, CHR 0xA9, CHR 0xAF]
     @ [[CHR 0xE2, CHR 0x81, CHR 0x9F], [CHR 0xE3, CHR 0x80, CHR 0x80]]"

fun strip_leading :: "string list \<Rightarrow> nat \<Rightarrow> string \<Rightarrow> string" where
  \<comment> \<open>The text without its leading run of the given byte sequences; the counter skips
      the remaining bytes of a sequence just found.\<close>
  "strip_leading ws k [] = []"
| "strip_leading ws (Suc k) (c # s) = strip_leading ws k s"
| "strip_leading ws 0 (c # s) =
     (case find (\<lambda>w. prefix w (c # s)) ws of
        Some w \<Rightarrow> strip_leading ws (length w - 1) s
      | None \<Rightarrow> c # s)"

definition strip :: "string \<Rightarrow> string" where
  \<comment> \<open>\<open>str.strip()\<close>: white space is removed at both ends. In UTF-8 the bytes of one
      character are never the tail of another, so the trailing run is the leading run
      of the reversed text.\<close>
  "strip s = rev (strip_leading (map rev WHITESPACE) 0 (rev (strip_leading WHITESPACE 0 s)))"

definition is_ascii :: "char \<Rightarrow> bool" where
  "is_ascii c = ((of_char c :: nat) < 128)"

definition ascii_lower :: "char \<Rightarrow> char" where
  "ascii_lower c = (if CHR ''A'' \<le> c \<and> c \<le> CHR ''Z'' then char_of (of_char c + (32::nat)) else c)"

definition lower :: "(string \<Rightarrow> string) \<Rightarrow> string \<Rightarrow> string" where
  \<comment> \<open>\<open>str.lower()\<close>. On text of ASCII characters only it lowers the letters A to Z; on
      any other text it is the case mapping of the Unicode database, which is the
      parameter \<open>unicode_lower\<close>.\<close>
  "lower unicode_lower s = (if list_all is_ascii s then map ascii_lower s else unicode_lower s)"

fun contains :: "'a list \<Rightarrow> 'a list \<Rightarrow> bool" where
  \<comment> \<open>\<open>sub in s\<close>\<close>
  "contains sub [] = (sub = [])"
| "contains sub (c # s) = (prefix sub (c # s) \<or> contains sub s)"

fun split_on :: "char \<Rightarrow> string \<Rightarrow> string list" where
  \<comment> \<open>\<open>s.split(sep)\<close> for a one-character separator\<close>
  "split_on sep [] = [[]]"
| "split_on sep (c # s) =
     (if c = sep then [] # split_on sep s
      else (case split_on sep s of [] \<Rightarrow> [[c]] | w # ws \<Rightarrow> (c # w) # ws))"

fun join_with :: "string \<Rightarrow> string list \<Rightarrow> string" where
  \<comment> \<open>\<open>sep.join(parts)\<close>\<close>
  "join_with sep [] = []"
| "join_with sep [w] = w"
| "join_with sep (w # v # ws) = w @ sep @ join_with sep (v # ws)"

fun split_first :: "char \<Rightarrow> string \<Rightarrow> string \<times> string" where
  \<comment> \<open>\<open>s.split(sep, 1)\<close> when \<open>sep\<close> occurs in \<open>s\<close>: the text before and after its first
      occurrence\<close>
  "split_first sep [] = ([], [])"
| "split_first sep (c # s) =
     (if c = sep then ([], s) else (case split_first sep s of (a, b) \<Rightarrow> (c # a, b)))"

text \<open>
  A JSON document as \<open>json.load\<close> returns it. A Python \<open>dict\<close> is an association list
  with distinct keys in insertion order: \<open>d[k] = v\<close> is \<open>AList.update\<close>, \<open>d.get(k)\<close> is
  \<open>map_of\<close>. Numbers are integers here (no application below computes with them).
\<close>

datatype json =
    JNull | JBool bool | JNum int | JStr string | JArr "json list" | JObj "(string \<times> json) list"

fun truthy :: "json \<Rightarrow> bool" where
  \<comment> \<open>\<open>bool(v)\<close>\<close>
  "truthy JNull = False"
| "truthy (JBool b) = b"
| "truthy (JNum n) = (n \<noteq> 0)"
| "truthy (JStr s) = (s \<noteq> [])"
| "truthy (JArr xs) = (xs \<noteq> [])"
| "truthy (JObj kvs) = (kvs \<noteq> [])"

section \<open>Python's \<open>os.path\<close> on POSIX\<close>

definition startswith :: "string \<Rightarrow> string \<Rightarrow> bool" where
  "startswith s p = prefix p s"

definition isabs :: "string \<Rightarrow> bool" where
  "isabs p = startswith p ''/''"

definition path_join :: "string \<Rightarrow> string \<Rightarrow> string" where
  \<comment> \<open>\<open>os.path.join(a, b)\<close>\<close>
  "path_join a b =
     (if startswith b ''/'' then b
      else if a = [] \<or> last a = CHR ''/'' then a @ b
      else a @ ''/'' @ b)"

definition basename :: "string \<Rightarrow> string" where
  \<comment> \<open>the text after the last slash\<close>
  "basename p = last (split_on CHR ''/'' p)"

definition rstrip_sep :: "string \<Rightarrow> string" where
  "rstrip_sep s = rev (dropWhile (\<lambda>c. c = CHR ''/'') (rev s))"

definition dirname :: "string \<Rightarrow> string" where
  \<comment> \<open>the text up to and including the last slash, without its trailing slashes unless
      it consists of slashes only\<close>
  "dirname p =
     (let head = take (length p - length (basename p)) p
      in if head \<noteq> [] \<and> head \<noteq> replicate (length head) CHR ''/'' then rstrip_sep head else head)"

definition splitext :: "string \<Rightarrow> string \<times> string" where
  \<comment> \<open>The extension starts at the last dot of the last component, unless only dots
      precede that dot in the component.\<close>
  "splitext p =
     (let name = basename p;
          stem = rev (drop 1 (dropWhile (\<lambda>c. c \<noteq> CHR ''.'') (rev name)));
          ext = drop (length stem) name
      in if CHR ''.'' \<in> set name \<and> list_ex (\<lambda>c. c \<noteq> CHR ''.'') stem
         then (take (length p - length ext) p, ext)
         else (p, []))"

definition norm_step :: "bool \<Rightarrow> string list \<Rightarrow> string \<Rightarrow> string list" where
  \<comment> \<open>One round of the loop over \<open>comps\<close> in \<open>normpath\<close>.\<close>
  "norm_step initial_slashes new_comps part =
     (if part = [] \<or> part = ''.'' then new_comps
      else if part \<noteq> ''..'' \<or> (\<not> initial_slashes \<and> new_comps = [])
              \<or> (new_comps \<noteq> [] \<and> last new_comps = ''..'')
           then new_comps @ [part]
      else if new_comps \<noteq> [] then butlast new_comps
      else new_comps)"

definition normpath :: "string \<Rightarrow> string" where
  "normpath path =
     (if path = [] then ''.''
      else
        let initial_slashes =
              (if startswith path ''/''
               then (if startswith path ''//'' \<and> \<not> startswith path ''///'' then 2 else 1)
               else (0::nat));
            comps = foldl (norm_step (initial_slashes \<noteq> 0)) [] (split_on CHR ''/'' path);
            p = replicate initial_slashes CHR ''/'' @ join_with ''/'' comps
        in if p = [] then ''.'' else p)"

definition abspath :: "string \<Rightarrow> string \<Rightarrow> string" where
  \<comment> \<open>\<open>os.path.abspath(path)\<close> in a process whose working directory is \<open>cwd\<close>\<close>
  "abspath cwd path = normpath (if isabs path then path else path_join cwd path)"

definition path_parts :: "string \<Rightarrow> string list" where
  \<comment> \<open>\<open>[c for c in path.split('/') if c and c != '.']\<close>\<close>
  "path_parts p = filter (\<lambda>c. c \<noteq> [] \<and> c \<noteq> ''.'') (split_on CHR ''/'' p)"

definition commonpath :: "string \<Rightarrow> string \<Rightarrow> py_error + string" where
  \<comment> \<open>\<open>os.path.commonpath([a, b])\<close>: the common leading components of the smaller and
      the larger component list.\<close>
  "commonpath a b =
     (if isabs a \<noteq> isabs b then Inl ValueError
      else
        let s1 = min (path_parts a) (path_parts b);
            s2 = max (path_parts a) (path_parts b);
            common = longest_common_prefix s1 s2
        in Inr ((if isabs a then ''/'' else []) @ join_with ''/'' common))"

fun digit_char :: "nat \<Rightarrow> char" where
  "digit_char n = char_of (48 + n)"

fun str_nat :: "nat \<Rightarrow> string" where
  \<comment> \<open>\<open>str(i)\<close> for a natural number\<close>
  "str_nat n = (if n < 10 then [digit_char n] else str_nat (n div 10) @ [digit_char (n mod 10)])"

section \<open>The file system\<close>

text \<open>
  A file holds a JSON document (kept as the value \<open>json.load\<close> returns for it) or
  other bytes, on which \<open>json.load\<close> raises. The file system maps the component list of
  a normalised absolute path to the node there; the root is a directory. A path names
  the node at the components of its absolute form (there are no symbolic links). Each
  primitive changes the file system only when it succeeds.
\<close>

datatype content = Raw string | Json json

datatype node = File content | Dir

type_synonym filesystem = "string list \<rightharpoonup> node"

definition ncomps :: "string \<Rightarrow> string list" where
  \<comment> \<open>The components of an absolute path after normalisation.\<close>
  "ncomps q = foldl (norm_step True) [] (split_on CHR ''/'' q)"

definition fs_key :: "string \<Rightarrow> string \<Rightarrow> string list" where
  "fs_key cwd p = ncomps (if isabs p then p else path_join cwd p)"

definition lookup :: "filesystem \<Rightarrow> string list \<Rightarrow> node option" where
  "lookup fs k = (if k = [] then Some Dir else fs k)"

definition path_exists :: "filesystem \<Rightarrow> string \<Rightarrow> string \<Rightarrow> bool" where
  \<comment> \<open>\<open>os.path.exists\<close>\<close>
  "path_exists fs cwd p = (p \<noteq> [] \<and> lookup fs (fs_key cwd p) \<noteq> None)"

definition path_isdir :: "filesystem \<Rightarrow> string \<Rightarrow> string \<Rightarrow> bool" where
  \<comment> \<open>\<open>os.path.isdir\<close>\<close>
  "path_isdir fs cwd p = (p \<noteq> [] \<and> lookup fs (fs_key cwd p) = Some Dir)"

definition is_file_node :: "node option \<Rightarrow> bool" where
  "is_file_node n = (case n of Some (File c) \<Rightarrow> True | _ \<Rightarrow> False)"

definition makedirs :: "bool \<Rightarrow> string list \<Rightarrow> filesystem \<Rightarrow> py_error + filesystem" where
  \<comment> \<open>\<open>os.makedirs(name, exist_ok=...)\<close>: every missing directory on the way is created.\<close>
  "makedirs exist_ok k fs =
     (case lookup fs k of
        Some Dir \<Rightarrow> if exist_ok then Inr fs else Inl FileExistsError
      | Some (File c) \<Rightarrow> Inl FileExistsError
      | None \<Rightarrow>
          if list_ex (\<lambda>p. is_file_node (lookup fs p)) (prefixes k) then Inl NotADirectoryError
          else Inr (foldl (\<lambda>f p. if lookup f p = None then f(p \<mapsto> Dir) else f) fs (prefixes k)))"

definition write_file :: "string list \<Rightarrow> content \<Rightarrow> filesystem \<Rightarrow> py_error + filesystem" where
  \<comment> \<open>\<open>open(path, "w")\<close> and a complete write\<close>
  "write_file k c fs =
     (if k = [] then Inl IsADirectoryError
      else case lookup fs (butlast k) of
             None \<Rightarrow> Inl FileNotFoundError
           | Some (File c') \<Rightarrow> Inl NotADirectoryError
           | Some Dir \<Rightarrow>
               (case lookup fs k of
                  Some Dir \<Rightarrow> Inl IsADirectoryError
                | _ \<Rightarrow> Inr (fs(k \<mapsto> File c))))"

definition read_file :: "string list \<Rightarrow> filesystem \<Rightarrow> py_error + content" where
  \<comment> \<open>\<open>open(path, "r")\<close> and a complete read\<close>
  "read_file k fs =
     (case lookup fs k of
        None \<Rightarrow> Inl FileNotFoundError
      | Some Dir \<Rightarrow> Inl IsADirectoryError
      | Some (File c) \<Rightarrow> Inr c)"

definition subtree_move :: "string list \<Rightarrow> string list \<Rightarrow> filesystem \<Rightarrow> filesystem" where
  \<comment> \<open>The node at \<open>src\<close>, with everything below it, now at \<open>dst\<close>.\<close>
  "subtree_move src dst fs =
     (\<lambda>k. if prefix dst k then fs (src @ drop (length dst) k)
          else if prefix src k then None
          else fs k)"

definition posix_rename :: "string list \<Rightarrow> string list \<Rightarrow> filesystem \<Rightarrow> py_error + filesystem" where
  \<comment> \<open>\<open>os.rename(src, dst)\<close>: a file replaces a file, a directory replaces an empty
      directory.\<close>
  "posix_rename src dst fs =
     (case lookup fs src of
        None \<Rightarrow> Inl FileNotFoundError
      | Some n \<Rightarrow>
          if src = dst then Inr fs
          else if src = [] \<or> dst = [] then Inl OSError
          else if lookup fs (butlast dst) = None then Inl FileNotFoundError
          else if lookup fs (butlast dst) \<noteq> Some Dir then Inl NotADirectoryError
          else if prefix src dst then Inl OSError
          else
            (case (n, lookup fs dst) of
               (File c, Some Dir) \<Rightarrow> Inl IsADirectoryError
             | (Dir, Some (File c)) \<Rightarrow> Inl NotADirectoryError
             | (Dir, Some Dir) \<Rightarrow>
                 if (\<exists>k. strict_prefix dst k \<and> fs k \<noteq> None) then Inl OSError
                 else Inr (subtree_move src dst fs)
             | _ \<Rightarrow> Inr (subtree_move src dst fs)))"

definition posix_move :: "string \<Rightarrow> string \<Rightarrow> string \<Rightarrow> filesystem \<Rightarrow> py_error + filesystem" where
  \<comment> \<open>\<open>shutil.move(src, dst)\<close>: into \<open>dst\<close> when \<open>dst\<close> is a directory, else onto \<open>dst\<close> by
      \<open>os.rename\<close>; when the rename of a directory fails for want of the destination's
      parent, the copy fallback creates the parents.\<close>
  "posix_move cwd src dst fs =
     (if path_isdir fs cwd dst \<and> path_exists fs cwd src \<and> fs_key cwd src = fs_key cwd dst
      then posix_rename (fs_key cwd src) (fs_key cwd dst) fs
      else
        let real_dst = (if path_isdir fs cwd dst
                        then path_join dst (basename (rstrip_sep src)) else dst)
        in if path_isdir fs cwd dst \<and> path_exists fs cwd real_dst then Inl ShutilError
           else
             (case posix_rename (fs_key cwd src) (fs_key cwd real_dst) fs of
                Inr fs' \<Rightarrow> Inr fs'
              | Inl e \<Rightarrow>
                  if lookup fs (fs_key cwd src) = Some Dir \<and> \<not> prefix (fs_key cwd src) (fs_key cwd real_dst)
                  then (case makedirs False (fs_key cwd real_dst) fs of
                          Inl e' \<Rightarrow> Inl e'
                        | Inr fs1 \<Rightarrow> Inr (subtree_move (fs_key cwd src) (fs_key cwd real_dst) fs1))
                  else Inl e))"

definition rmtree :: "string list \<Rightarrow> filesystem \<Rightarrow> filesystem" where
  \<comment> \<open>\<open>shutil.rmtree(path, ignore_errors=True)\<close>\<close>
  "rmtree k fs = (if lookup fs k = Some Dir then (\<lambda>p. if prefix k p then None else fs p) else fs)"

definition posix_makedirs :: "string \<Rightarrow> string \<Rightarrow> bool \<Rightarrow> filesystem \<Rightarrow> py_error + filesystem" where
  \<comment> \<open>\<open>os.makedirs(path, exist_ok=...)\<close> on a path string\<close>
  "posix_makedirs cwd path exist_ok fs =
     (if path = [] then Inl FileNotFoundError else makedirs exist_ok (fs_key cwd path) fs)"

section \<open>The modules \<open>os\<close>, \<open>os.path\<close> and \<open>shutil\<close>\<close>

text \<open>
  The file explorer and the recycle bin run on POSIX and on Windows, where \<open>os.path\<close>
  is another module (\<open>posixpath\<close> or \<open>ntpath\<close>) and the file system primitives behave
  differently. Their model therefore takes the functions of \<open>os\<close>, \<open>os.path\<close> and
  \<open>shutil\<close> that they call, with \<open>open\<close> for writing and for reading, as the fields of
  a record. \<open>posix_os cwd\<close> is these modules on POSIX, in a process whose working
  directory is \<open>cwd\<close>.
\<close>

record os_module =
  os_path_join :: "string \<Rightarrow> string \<Rightarrow> string"
  os_path_abspath :: "string \<Rightarrow> string"
  os_path_commonpath :: "string \<Rightarrow> string \<Rightarrow> py_error + string"
  os_path_dirname :: "string \<Rightarrow> string"
  os_path_basename :: "string \<Rightarrow> string"
  os_path_splitext :: "string \<Rightarrow> string \<times> string"
  os_path_exists :: "filesystem \<Rightarrow> string \<Rightarrow> bool"
  os_path_isdir :: "filesystem \<Rightarrow> string \<Rightarrow> bool"
  os_makedirs :: "string \<Rightarrow> bool \<Rightarrow> filesystem \<Rightarrow> py_error + filesystem"
  os_rename :: "string \<Rightarrow> string \<Rightarrow> filesystem \<Rightarrow> py_error + filesystem"
  open_write :: "string \<Rightarrow> content \<Rightarrow> filesystem \<Rightarrow> py_error + filesystem"
  open_read :: "string \<Rightarrow> filesystem \<Rightarrow> py_error + content"
  shutil_move :: "string \<Rightarrow> string \<Rightarrow> filesystem \<Rightarrow> py_error + filesystem"
  shutil_rmtree :: "string \<Rightarrow> filesystem \<Rightarrow> filesystem"

definition posix_os :: "string \<Rightarrow> os_module" where
  "posix_os cwd =
     \<lparr>os_path_join = path_join, os_path_abspath = abspath cwd, os_path_commonpath = commonpath,
      os_path_dirname = dirname, os_path_basename = basename, os_path_splitext = splitext,
      os_path_exists = (\<lambda>fs p. path_exists fs cwd p),
      os_path_isdir = (\<lambda>fs p. path_isdir fs cwd p),
      os_makedirs = posix_makedirs cwd,
      os_rename = (\<lambda>src dst. posix_rename (fs_key cwd src) (fs_key cwd dst)),
      open_write = (\<lambda>p. write_file (fs_key cwd p)),
      open_read = (\<lambda>p. read_file (fs_key cwd p)),
      shutil_move = posix_move cwd,
      shutil_rmtree = (\<lambda>p. rmtree (fs_key cwd p))\<rparr>"

section \<open>\<open>os.path\<close> on Windows\<close>

text \<open>
  The functions of \<open>ntpath\<close> that the sandbox check of the file explorer and of the
  recycle bin calls, on UTF-8 text. \<open>ul\<close> is the Unicode case mapping of \<open>str.lower\<close>.
\<close>

definition backslashes :: "string \<Rightarrow> string" where
  \<comment> \<open>\<open>p.replace('/', '\\')\<close>\<close>
  "backslashes p = map (\<lambda>c. if c = CHR ''/'' then CHR 0x5C else c) p"

definition is_sep :: "char \<Rightarrow> bool" where
  \<comment> \<open>\<open>c in '\\/'\<close>\<close>
  "is_sep c = (c = CHR 0x5C \<or> c = CHR ''/'')"

definition first_char :: "string \<Rightarrow> string" where
  \<comment> \<open>The bytes of the first character: a byte and the continuation bytes after it.\<close>
  "first_char s =
     (case s of [] \<Rightarrow> []
      | c # r \<Rightarrow> c # takeWhile (\<lambda>b. 128 \<le> (of_char b :: nat) \<and> (of_char b :: nat) < 192) r)"

definition ascii_upper :: "char \<Rightarrow> char" where
  "ascii_upper c = (if CHR ''a'' \<le> c \<and> c \<le> CHR ''z'' then char_of (of_char c - (32::nat)) else c)"

definition find_backslash :: "string \<Rightarrow> nat \<Rightarrow> nat option" where
  \<comment> \<open>\<open>s.find('\\', start)\<close>, with \<open>None\<close> for -1\<close>
  "find_backslash s start =
     (if CHR 0x5C \<in> set (drop start s)
      then Some (start + length (takeWhile (\<lambda>c. c \<noteq> CHR 0x5C) (drop start s)))
      else None)"

definition nt_splitdrive :: "string \<Rightarrow> string \<times> string" where
  \<comment> \<open>\<open>ntpath.splitdrive\<close>: a UNC or device prefix up to the fourth separator, or a
      character and a colon.\<close>
  "nt_splitdrive p =
     (let normp = backslashes p;
          n = length (first_char p)
      in if drop n p = [] then ([], p)
         else if take 2 normp = [CHR 0x5C, CHR 0x5C] then
           (let start = (if map ascii_upper (take 8 normp)
                              = [CHR 0x5C, CHR 0x5C, CHR ''?'', CHR 0x5C, CHR ''U'', CHR ''N'', CHR ''C'', CHR 0x5C]
                         then 8 else 2)
            in case find_backslash normp start of
                 None \<Rightarrow> (p, [])
               | Some index \<Rightarrow>
                   (case find_backslash normp (index + 1) of
                      None \<Rightarrow> (p, [])
                    | Some index2 \<Rightarrow> (take index2 p, drop index2 p)))
         else if take 1 (drop n normp) = '':'' then (take (n + 1) p, drop (n + 1) p)
         else ([], p))"

definition nt_isabs :: "string \<Rightarrow> bool" where
  \<comment> \<open>\<open>ntpath.isabs\<close>: the text starts with a separator, or with a character, a colon
      and a separator.\<close>
  "nt_isabs s =
     (take 1 (backslashes s) = [CHR 0x5C]
      \<or> (s \<noteq> [] \<and> take 2 (backslashes (drop (length (first_char s)) s)) = [CHR '':'', CHR 0x5C]))"

definition nt_join :: "(string \<Rightarrow> string) \<Rightarrow> string \<Rightarrow> string \<Rightarrow> string" where
  \<comment> \<open>\<open>ntpath.join(path, p)\<close>\<close>
  "nt_join ul path p =
     (case (nt_splitdrive path, nt_splitdrive p) of
        ((result_drive, result_path), (p_drive, p_path)) \<Rightarrow>
          (let relative =
                 (\<lambda>drive. (drive,
                    (if result_path \<noteq> [] \<and> \<not> is_sep (last result_path)
                     then result_path @ [CHR 0x5C] else result_path) @ p_path));
               joined =
                 (if p_path \<noteq> [] \<and> is_sep (hd p_path)
                  then (if p_drive \<noteq> [] \<or> result_drive = [] then p_drive else result_drive, p_path)
                  else if p_drive \<noteq> [] \<and> p_drive \<noteq> result_drive
                  then (if lower ul p_drive \<noteq> lower ul result_drive then (p_drive, p_path)
                        else relative p_drive)
                  else relative result_drive)
           in case joined of (drive, rest) \<Rightarrow>
                if rest \<noteq> [] \<and> \<not> is_sep (hd rest) \<and> drive \<noteq> [] \<and> last drive \<noteq> CHR '':''
                then drive @ [CHR 0x5C] @ rest
                else drive @ rest))"

definition nt_norm_step :: "bool \<Rightarrow> string list \<Rightarrow> string \<Rightarrow> string list" where
  \<comment> \<open>One round of the loop over \<open>comps\<close> in \<open>ntpath.normpath\<close>; \<open>rooted\<close>: the prefix
      ends with a separator.\<close>
  "nt_norm_step rooted comps part =
     (if part = [] \<or> part = ''.'' then comps
      else if part = ''..'' then
        (if comps \<noteq> [] \<and> last comps \<noteq> ''..'' then butlast comps
         else if comps = [] \<and> rooted then comps
         else comps @ [part])
      else comps @ [part])"

definition nt_normpath :: "string \<Rightarrow> string" where
  \<comment> \<open>\<open>ntpath.normpath\<close>\<close>
  "nt_normpath path0 =
     (case nt_splitdrive (backslashes path0) of
        (drive, path) \<Rightarrow>
          (let rooted = (take 1 path = [CHR 0x5C]);
               prefix = (if rooted then drive @ [CHR 0x5C] else drive);
               comps = foldl (nt_norm_step rooted) []
                         (split_on (CHR 0x5C) (dropWhile (\<lambda>c. c = CHR 0x5C) path))
           in if prefix = [] \<and> comps = [] then ''.''
              else prefix @ join_with [CHR 0x5C] comps))"

definition nt_abspath :: "(string \<Rightarrow> string) \<Rightarrow> string \<Rightarrow> string \<Rightarrow> string" where
  \<comment> \<open>\<open>ntpath.abspath(path)\<close> in a process whose working directory is \<open>cwd\<close>, as
      \<open>ntpath\<close> computes it itself: the path is joined to the working directory unless
      it is absolute, and normalised. (On Windows \<open>abspath\<close> first asks the operating
      system, which gives the same for a relative path of plain names and for a path
      that starts with a drive letter and a separator, as in the examples below.)\<close>
  "nt_abspath ul cwd path = nt_normpath (if nt_isabs path then path else nt_join ul cwd path)"

definition nt_parts :: "string \<Rightarrow> string list" where
  \<comment> \<open>\<open>[c for c in path.split('\\') if c and c != '.']\<close>\<close>
  "nt_parts path = filter (\<lambda>c. c \<noteq> [] \<and> c \<noteq> ''.'') (split_on (CHR 0x5C) path)"

definition nt_commonpath :: "(string \<Rightarrow> string) \<Rightarrow> string \<Rightarrow> string \<Rightarrow> py_error + string" where
  \<comment> \<open>\<open>ntpath.commonpath([a, b])\<close>: it raises \<open>ValueError\<close> when one path is absolute and
      the other is not, and when the drives differ.\<close>
  "nt_commonpath ul a b =
     (case (nt_splitdrive (lower ul (backslashes a)), nt_splitdrive (lower ul (backslashes b))) of
        ((drive_a, path_a), (drive_b, path_b)) \<Rightarrow>
          if (take 1 path_a = [CHR 0x5C]) \<noteq> (take 1 path_b = [CHR 0x5C]) then Inl ValueError
          else if drive_a \<noteq> drive_b then Inl ValueError
          else
            (case nt_splitdrive (backslashes a) of
               (drive, path) \<Rightarrow>
                 (let s1 = min (nt_parts path_a) (nt_parts path_b);
                      s2 = max (nt_parts path_a) (nt_parts path_b);
                      common = take (length (longest_common_prefix s1 s2)) (nt_parts path);
                      prefix = (if take 1 path_a = [CHR 0x5C] then drive @ [CHR 0x5C] else drive)
                  in Inr (prefix @ join_with [CHR 0x5C] common))))"

definition nt_dirname :: "string \<Rightarrow> string" where
  \<comment> \<open>\<open>ntpath.dirname\<close>: the drive and the text up to the last separator, without
      its trailing separators unless it consists of separators only.\<close>
  "nt_dirname p0 =
     (case nt_splitdrive p0 of
        (d, p) \<Rightarrow>
          (let head = rev (dropWhile (\<lambda>c. \<not> is_sep c) (rev p));
               stripped = rev (dropWhile is_sep (rev head))
           in d @ (if stripped = [] then head else stripped)))"

definition windows_os :: "(string \<Rightarrow> string) \<Rightarrow> string \<Rightarrow> os_module \<Rightarrow> os_module" where
  \<comment> \<open>The modules on Windows, in a process whose working directory is \<open>cwd\<close>: the path
      functions that come before the sandbox check are those of \<open>ntpath\<close>, the other
      functions are those of \<open>rest\<close>, whatever they are.\<close>
  "windows_os ul cwd rest =
     rest\<lparr>os_path_join := nt_join ul, os_path_abspath := nt_abspath ul cwd,
          os_path_commonpath := nt_commonpath ul, os_path_dirname := nt_dirname\<rparr>"

section \<open>apps/settings.py\<close>

definition SETTINGS_FILE :: string where
  "SETTINGS_FILE = path_join ''data'' ''settings.json''"

definition DEFAULTS :: "(string \<times> json) list" where
  "DEFAULTS = [(''text'', JStr ''#FFFFFF''), (''desktop_bg'', JStr ''#1E1E1E''),
     (''taskbar_bg'', JStr ''#333333''), (''start_bg'', JStr ''#444444''),
     (''window_bg'', JStr ''#2E2E2E'')]"

definition dict_merge :: "(string \<times> json) list \<Rightarrow> (string \<times> json) list \<Rightarrow> (string \<times> json) list" where
  \<comment> \<open>\<open>{**a, **b}\<close>\<close>
  "dict_merge a b = foldl (\<lambda>d (k, v). AList.update k v d) a b"

definition load_colors_from_disk ::
    "string \<Rightarrow> filesystem \<Rightarrow> (py_error + (string \<times> json) list) \<times> filesystem" where
  \<comment> \<open>Returns what the function returns or raises, and the file system it leaves.
      \<open>os.makedirs\<close> stands before the \<open>try\<close>; everything after it is inside.\<close>
  "load_colors_from_disk cwd fs =
     (case makedirs True (fs_key cwd ''data'') fs of
        Inl e \<Rightarrow> (Inl e, fs)
      | Inr fs1 \<Rightarrow>
          if path_exists fs1 cwd SETTINGS_FILE then
            (case read_file (fs_key cwd SETTINGS_FILE) fs1 of
               Inr (Json (JObj data)) \<Rightarrow>
                 (case (case map_of data ''colors'' of None \<Rightarrow> JObj [] | Some v \<Rightarrow> v) of
                    JObj saved \<Rightarrow> (Inr (dict_merge DEFAULTS saved), fs1)
                  | _ \<Rightarrow> (Inr DEFAULTS, fs1))
             | _ \<Rightarrow> (Inr DEFAULTS, fs1))
          else (Inr DEFAULTS, fs1))"

definition save_colors_to_disk ::
    "string \<Rightarrow> (string \<times> json) list \<Rightarrow> filesystem \<Rightarrow> (py_error + bool) \<times> filesystem" where
  "save_colors_to_disk cwd colors fs =
     (case makedirs True (fs_key cwd ''data'') fs of
        Inl e \<Rightarrow> (Inl e, fs)
      | Inr fs1 \<Rightarrow>
          (case write_file (fs_key cwd SETTINGS_FILE) (Json (JObj [(''colors'', JObj colors)])) fs1 of
             Inl e \<Rightarrow> (Inr False, fs1)
           | Inr fs2 \<Rightarrow> (Inr True, fs2)))"

subsection \<open>Settings: notions used in the properties, and example states\<close>

definition save_loaded :: "string \<Rightarrow> filesystem \<Rightarrow> filesystem" where
  \<comment> \<open>The file system after \<open>save_colors_to_disk(load_colors_from_disk())\<close>.\<close>
  "save_loaded cwd fs =
     (case load_colors_from_disk cwd fs of
        (Inl e, fs1) \<Rightarrow> fs1
      | (Inr colors, fs1) \<Rightarrow> snd (save_colors_to_disk cwd colors fs1))"

definition colors_on_disk :: "string \<Rightarrow> filesystem \<Rightarrow> (string \<rightharpoonup> json) option" where
  \<comment> \<open>What the settings document means: the palette that loading it yields, as a map
      from colour key to value (\<open>None\<close> when loading raises).\<close>
  "colors_on_disk cwd fs =
     (case fst (load_colors_from_disk cwd fs) of Inl e \<Rightarrow> None | Inr colors \<Rightarrow> Some (map_of colors))"

definition saved_overrides :: "string \<Rightarrow> filesystem \<Rightarrow> (string \<times> json) list option" where
  \<comment> \<open>The \<open>colors\<close> object of a readable settings document (or the empty one when the
      document has no such key); \<open>None\<close> on any read or parse failure.\<close>
  "saved_overrides cwd fs =
     (case lookup fs (fs_key cwd SETTINGS_FILE) of
        Some (File (Json (JObj data))) \<Rightarrow>
          (case map_of data ''colors'' of
             None \<Rightarrow> Some []
           | Some (JObj saved) \<Rightarrow> Some saved
           | _ \<Rightarrow> None)
      | _ \<Rightarrow> None)"

definition home :: "string list" where
  "home = [''home'', ''raven'', ''PyOS'']"

definition fs_data_is_file :: filesystem where
  \<comment> \<open>The working directory holds a regular file named \<open>data\<close>.\<close>
  "fs_data_is_file = [[''home''] \<mapsto> Dir, [''home'', ''raven''] \<mapsto> Dir, home \<mapsto> Dir,
     home @ [''data''] \<mapsto> File (Raw ''x'')]"

definition fs_saved_theme :: filesystem where
  \<comment> \<open>A settings document that overrides the text colour only.\<close>
  "fs_saved_theme = [[''home''] \<mapsto> Dir, [''home'', ''raven''] \<mapsto> Dir, home \<mapsto> Dir,
     home @ [''data''] \<mapsto> Dir,
     home @ [''data'', ''settings.json''] \<mapsto>
       File (Json (JObj [(''colors'', JObj [(''text'', JStr ''#00FF00'')])]))]"

section \<open>apps/file_explorer.py\<close>

definition ROOT_DIR :: "os_module \<Rightarrow> string" where
  "ROOT_DIR os = os_path_join os ''data'' ''userfiles''"

definition TRASH_DIR :: "os_module \<Rightarrow> string" where
  "TRASH_DIR os = os_path_join os ''data'' ''trash''"

definition move_to_trash ::
    "os_module \<Rightarrow> string \<Rightarrow> int \<Rightarrow> string \<Rightarrow> filesystem \<Rightarrow> py_error option \<times> filesystem" where
  \<comment> \<open>\<open>tid\<close> is \<open>str(uuid.uuid4())\<close> and \<open>now\<close> is \<open>time.time()\<close>. The result is the
      exception raised, if any, and the file system left behind.\<close>
  "move_to_trash os tid now path fs =
     (case os_makedirs os (TRASH_DIR os) True fs of
        Inl e \<Rightarrow> (Some e, fs)
      | Inr fs1 \<Rightarrow>
          (let tdir = os_path_join os (TRASH_DIR os) tid in
           case os_makedirs os tdir True fs1 of
             Inl e \<Rightarrow> (Some e, fs1)
           | Inr fs2 \<Rightarrow>
               (let name = os_path_basename os path;
                    is_dir = os_path_isdir os fs2 path;
                    stored_name = name;
                    meta = [(''original_path'', JStr (os_path_abspath os path)),
                            (''name'', JStr name),
                            (''stored_name'', JStr stored_name),
                            (''is_dir'', JBool is_dir),
                            (''deleted_at'', JNum now)]
                in case open_write os (os_path_join os tdir ''metadata.json'')
                          (Json (JObj meta)) fs2 of
                     Inl e \<Rightarrow> (Some e, fs2)
                   | Inr fs3 \<Rightarrow>
                       (let dest = os_path_join os tdir stored_name
                        in case shutil_move os path dest fs3 of
                             Inl e \<Rightarrow> (Some e, fs3)
                           | Inr fs4 \<Rightarrow> (None, fs4)))))"

definition ensure_root :: "os_module \<Rightarrow> filesystem \<Rightarrow> py_error + filesystem" where
  "ensure_root os fs = os_makedirs os (ROOT_DIR os) True fs"

definition within_root :: "os_module \<Rightarrow> string \<Rightarrow> py_error + bool" where
  "within_root os path =
     (let root = os_path_abspath os (ROOT_DIR os);
          p = os_path_abspath os path
      in case os_path_commonpath os root p of Inl e \<Rightarrow> Inl e | Inr c \<Rightarrow> Inr (c = root))"

datatype dialog =
    Warning string string | Critical string py_error | Information string string

text \<open>
  The fields of \<open>FileExplorerWindow\<close> that its logic reads and writes, and the message
  boxes it has shown. The two views and the toolbar's enabled flags are not modelled.
\<close>

record file_explorer =
  fe_history :: "string list"
  fe_history_index :: int
  current_path :: string
  fe_address :: string
  fe_dialogs :: "dialog list"

definition show_dialog :: "dialog \<Rightarrow> file_explorer \<Rightarrow> file_explorer" where
  "show_dialog d fe = fe\<lparr>fe_dialogs := fe_dialogs fe @ [d]\<rparr>"

definition slice_to :: "int \<Rightarrow> 'a list \<Rightarrow> 'a list" where
  \<comment> \<open>\<open>xs[:n]\<close>\<close>
  "slice_to n xs = (if 0 \<le> n then take (nat n) xs else take (length xs - nat (- n)) xs)"

definition update_buttons :: "os_module \<Rightarrow> file_explorer \<Rightarrow> filesystem \<Rightarrow> py_error + filesystem" where
  \<comment> \<open>Of \<open>update_buttons\<close>, what reaches the file system: the Up button's condition
      calls \<open>ensure_root()\<close> when the parent directory is inside the root.\<close>
  "update_buttons os fe fs =
     (case within_root os (os_path_dirname os (current_path fe)) of
        Inl e \<Rightarrow> Inl e
      | Inr inside \<Rightarrow> if inside then ensure_root os fs else Inr fs)"

definition navigate :: "os_module \<Rightarrow> string \<Rightarrow> bool \<Rightarrow> file_explorer \<Rightarrow> filesystem
    \<Rightarrow> py_error option \<times> file_explorer \<times> filesystem" where
  "navigate os path0 push_history fe fs =
     (let path = os_path_abspath os path0 in
      case within_root os path of
        Inl e \<Rightarrow> (Some e, fe, fs)
      | Inr inside \<Rightarrow>
          if \<not> inside then
            (None, show_dialog (Warning ''Blocked''
                     ''Navigation outside data/userfiles is not allowed.'') fe, fs)
          else if \<not> os_path_exists os fs path then
            (None, show_dialog (Warning ''Not found''
                     (''Path does not exist:'' @ [CHR 0x0A] @ path)) fe, fs)
          else
            (let fe1 = fe\<lparr>current_path := path, fe_address := path\<rparr>;
                 fe2 = (if push_history
                        then (let h = slice_to (fe_history_index fe1 + 1) (fe_history fe1) @ [path]
                              in fe1\<lparr>fe_history := h, fe_history_index := int (length h) - 1\<rparr>)
                        else fe1)
             in case update_buttons os fe2 fs of
                  Inl e \<Rightarrow> (Some e, fe2, fs)
                | Inr fs' \<Rightarrow> (None, fe2, fs')))"

definition nav_up :: "os_module \<Rightarrow> file_explorer \<Rightarrow> filesystem
    \<Rightarrow> py_error option \<times> file_explorer \<times> filesystem" where
  "nav_up os fe fs =
     (let parent_dir = os_path_dirname os (current_path fe) in
      case within_root os parent_dir of
        Inl e \<Rightarrow> (Some e, fe, fs)
      | Inr inside \<Rightarrow> if inside then navigate os parent_dir True fe fs else (None, fe, fs))"

definition on_go :: "os_module \<Rightarrow> file_explorer \<Rightarrow> filesystem
    \<Rightarrow> py_error option \<times> file_explorer \<times> filesystem" where
  "on_go os fe fs =
     (let raw = strip (fe_address fe) in
      if raw = [] then (None, fe, fs)
      else
        (let cand = os_path_abspath os raw in
         case within_root os cand of
           Inl e \<Rightarrow> (Some e, fe, fs)
         | Inr inside \<Rightarrow>
             navigate os (if inside then cand else os_path_abspath os (os_path_join os (ROOT_DIR os) raw)) True fe fs))"

definition new_folder :: "os_module \<Rightarrow> string \<times> bool \<Rightarrow> file_explorer \<Rightarrow> filesystem
    \<Rightarrow> py_error option \<times> file_explorer \<times> filesystem" where
  \<comment> \<open>The pair is what \<open>QInputDialog.getText\<close> returns: the text typed and whether the
      user accepted.\<close>
  "new_folder os input fe fs =
     (case input of (name, ok) \<Rightarrow>
        if \<not> ok \<or> strip name = [] then (None, fe, fs)
        else
          (let dest = os_path_join os (current_path fe) (strip name) in
           case within_root os dest of
             Inl e \<Rightarrow> (Some e, fe, fs)
           | Inr inside \<Rightarrow>
               if \<not> inside then
                 (None, show_dialog (Warning ''Blocked''
                          ''Cannot create folder outside sandbox.'') fe, fs)
               else
                 (case os_makedirs os dest False fs of
                    Inr fs' \<Rightarrow> (None, fe, fs')
                  | Inl e \<Rightarrow>
                      if e = FileExistsError
                      then (None, show_dialog (Warning ''Exists''
                                   ''A file or folder with that name already exists.'') fe, fs)
                      else (None, show_dialog (Critical ''Error'' e) fe, fs))))"

definition rename_selected :: "os_module \<Rightarrow> string option \<Rightarrow> string \<times> bool \<Rightarrow> file_explorer
    \<Rightarrow> filesystem \<Rightarrow> py_error option \<times> file_explorer \<times> filesystem" where
  \<comment> \<open>\<open>selected\<close> is the result of \<open>selected_path()\<close>.\<close>
  "rename_selected os selected input fe fs =
     (case selected of
        None \<Rightarrow> (None, fe, fs)
      | Some path \<Rightarrow>
          if path = [] then (None, fe, fs)
          else
            (case input of (new_name, ok) \<Rightarrow>
               if \<not> ok \<or> strip new_name = [] then (None, fe, fs)
               else
                 (let dest = os_path_join os (os_path_dirname os path) (strip new_name) in
                  case within_root os dest of
                    Inl e \<Rightarrow> (Some e, fe, fs)
                  | Inr inside \<Rightarrow>
                      if \<not> inside then
                        (None, show_dialog (Warning ''Blocked''
                                 ''Cannot move/rename outside sandbox.'') fe, fs)
                      else
                        (case os_rename os path dest fs of
                           Inr fs' \<Rightarrow> (None, fe, fs')
                         | Inl e \<Rightarrow> (None, show_dialog (Critical ''Error'' e) fe, fs)))))"

definition delete_selected :: "os_module \<Rightarrow> string option \<Rightarrow> bool \<Rightarrow> string \<Rightarrow> int \<Rightarrow> file_explorer
    \<Rightarrow> filesystem \<Rightarrow> file_explorer \<times> filesystem" where
  \<comment> \<open>\<open>yes\<close>: the user answers Yes to the question box.\<close>
  "delete_selected os selected yes tid now fe fs =
     (case selected of
        None \<Rightarrow> (fe, fs)
      | Some path \<Rightarrow>
          if path = [] \<or> \<not> yes then (fe, fs)
          else
            (case move_to_trash os tid now path fs of
               (None, fs') \<Rightarrow> (fe, fs')
             | (Some e, fs') \<Rightarrow> (show_dialog (Critical ''Error'' e) fe, fs')))"

section \<open>apps/recycle_bin.py\<close>

definition ensure_dirs :: "os_module \<Rightarrow> filesystem \<Rightarrow> py_error option \<times> filesystem" where
  "ensure_dirs os fs =
     (case os_makedirs os (TRASH_DIR os) True fs of
        Inl e \<Rightarrow> (Some e, fs)
      | Inr fs1 \<Rightarrow>
          (case os_makedirs os (ROOT_DIR os) True fs1 of
             Inl e \<Rightarrow> (Some e, fs1)
           | Inr fs2 \<Rightarrow> (None, fs2)))"

definition trash_item :: "os_module \<Rightarrow> string \<Rightarrow> filesystem \<Rightarrow> (string \<times> json) list option" where
  \<comment> \<open>One round of the loop of \<open>trash_items\<close>, for the directory entry \<open>entry\<close>: the
      dictionary it yields, or \<open>None\<close> when it continues without yielding.\<close>
  "trash_item os entry fs =
     (let tpath = os_path_join os (TRASH_DIR os) entry in
      if \<not> os_path_isdir os fs tpath then None
      else
        (let meta_path = os_path_join os tpath ''metadata.json'' in
         if \<not> os_path_exists os fs meta_path then None
         else
           (case open_read os meta_path fs of
              Inr (Json (JObj meta)) \<Rightarrow> Some (AList.update ''_trash_path'' (JStr tpath) meta)
            | _ \<Rightarrow> None)))"

definition safe_within_root :: "os_module \<Rightarrow> string \<Rightarrow> py_error + bool" where
  "safe_within_root os path =
     (let root = os_path_abspath os (ROOT_DIR os);
          p = os_path_abspath os path
      in case os_path_commonpath os root p of Inl e \<Rightarrow> Inl e | Inr c \<Rightarrow> Inr (c = root))"

definition restored_candidate :: "os_module \<Rightarrow> string \<Rightarrow> string \<Rightarrow> string \<Rightarrow> nat \<Rightarrow> string" where
  "restored_candidate os parent stem ext i =
     os_path_join os parent (stem @ '' (restored '' @ str_nat i @ '')'' @ ext)"

partial_function (option) probe_restored ::
    "filesystem \<Rightarrow> os_module \<Rightarrow> string \<Rightarrow> string \<Rightarrow> string \<Rightarrow> nat \<Rightarrow> string option" where
  \<comment> \<open>The \<open>while True\<close> loop of \<open>restore_selected\<close>, entered with \<open>i = 1\<close>.\<close>
  "probe_restored fs os parent stem ext i =
     (if \<not> os_path_exists os fs (restored_candidate os parent stem ext i)
      then Some (restored_candidate os parent stem ext i)
      else probe_restored fs os parent stem ext (i + 1))"

definition restore_one :: "os_module \<Rightarrow> (string \<times> json) list \<Rightarrow> filesystem
    \<Rightarrow> (py_error option \<times> bool \<times> filesystem) option" where
  \<comment> \<open>One round of the loop of \<open>restore_selected\<close>: the exception that leaves the loop,
      if any, whether \<open>restored\<close> was incremented, and the file system. An exception
      inside the \<open>try\<close> is printed and the loop goes on. \<open>None\<close>: the probing never ends.\<close>
  "restore_one os meta fs =
     (case (map_of meta ''_trash_path'', map_of meta ''stored_name'') of
        (Some (JStr tdir), Some (JStr stored_name)) \<Rightarrow>
          (let data_path = os_path_join os tdir stored_name in
           case map_of meta ''original_path'' of
             None \<Rightarrow> Some (None, False, fs)
           | Some (JStr orig) \<Rightarrow>
               if orig = [] then Some (None, False, fs)
               else
                 (case safe_within_root os orig of
                    Inl e \<Rightarrow> Some (Some e, False, fs)
                  | Inr inside \<Rightarrow>
                      if \<not> inside then Some (None, False, fs)
                      else
                        (case (if os_path_exists os fs orig
                               then (case os_path_splitext os (os_path_basename os orig) of
                                       (stem, ext) \<Rightarrow> probe_restored fs os (os_path_dirname os orig) stem ext 1)
                               else Some orig) of
                           None \<Rightarrow> None
                         | Some dest \<Rightarrow>
                             Some (case os_makedirs os (os_path_dirname os dest) True fs of
                                     Inl e \<Rightarrow> (None, False, fs)
                                   | Inr fs1 \<Rightarrow>
                                       (case shutil_move os data_path dest fs1 of
                                          Inl e \<Rightarrow> (None, False, fs1)
                                        | Inr fs2 \<Rightarrow> (None, True, shutil_rmtree os tdir fs2)))))
           | Some v \<Rightarrow>
               if truthy v then Some (Some TypeError, False, fs) else Some (None, False, fs))
      | _ \<Rightarrow> Some (Some TypeError, False, fs))"

fun restore_loop :: "os_module \<Rightarrow> (string \<times> json) list list \<Rightarrow> nat \<Rightarrow> filesystem
    \<Rightarrow> (py_error option \<times> nat \<times> filesystem) option" where
  "restore_loop os [] restored fs = Some (None, restored, fs)"
| "restore_loop os (meta # metas) restored fs =
     (case restore_one os meta fs of
        None \<Rightarrow> None
      | Some (Some e, r, fs') \<Rightarrow> Some (Some e, restored, fs')
      | Some (None, r, fs') \<Rightarrow> restore_loop os metas (if r then restored + 1 else restored) fs')"

definition restore_selected :: "os_module \<Rightarrow> (string \<times> json) list list \<Rightarrow> dialog list \<Rightarrow> filesystem
    \<Rightarrow> (py_error option \<times> dialog list \<times> filesystem) option" where
  \<comment> \<open>\<open>RecycleBinWindow.restore_selected\<close> on the selected dictionaries, with the message
      boxes shown so far. Of the final \<open>load_items()\<close>, its \<open>ensure_dirs()\<close> is modelled.\<close>
  "restore_selected os metas dialogs fs =
     (if metas = [] then Some (None, dialogs, fs)
      else
        (case restore_loop os metas 0 fs of
           None \<Rightarrow> None
         | Some (Some e, n, fs') \<Rightarrow> Some (Some e, dialogs, fs')
         | Some (None, n, fs') \<Rightarrow>
             (let dialogs1 = (if n \<noteq> 0
                              then dialogs @ [Information ''Recycle Bin''
                                                (''Restored '' @ str_nat n @ '' item(s).'')]
                              else dialogs)
              in case ensure_dirs os fs' of
                   (Some e, fs'') \<Rightarrow> Some (Some e, dialogs1, fs'')
                 | (None, fs'') \<Rightarrow> Some (None, dialogs1, fs''))))"

subsection \<open>File explorer and recycle bin: notions used in the properties, and example states\<close>

definition escapes_root :: "os_module \<Rightarrow> string \<Rightarrow> bool" where
  \<comment> \<open>The resolved absolute form of the path does not have the sandbox root as its
      common-path prefix.\<close>
  "escapes_root os p =
     (os_path_commonpath os (os_path_abspath os (ROOT_DIR os)) (os_path_abspath os p)
        \<noteq> Inr (os_path_abspath os (ROOT_DIR os)))"

definition rejected_entry :: "os_module \<Rightarrow> (string \<times> json) list \<Rightarrow> bool" where
  \<comment> \<open>A listed trash entry whose recorded original path is outside the sandbox root.\<close>
  "rejected_entry os meta =
     (case (map_of meta ''_trash_path'', map_of meta ''stored_name'', map_of meta ''original_path'') of
        (Some (JStr tdir), Some (JStr stored_name), Some (JStr orig)) \<Rightarrow> escapes_root os orig
      | _ \<Rightarrow> False)"

definition pyos_dir :: string where
  \<comment> \<open>The working directory of the example process.\<close>
  "pyos_dir = ''/home/raven/PyOS''"

definition pyos :: os_module where
  \<comment> \<open>The modules of the example process, which runs on POSIX.\<close>
  "pyos = posix_os pyos_dir"

definition userfiles :: "string list" where
  "userfiles = home @ [''data'', ''userfiles'']"

definition trash :: "string list" where
  "trash = home @ [''data'', ''trash'']"

definition fs_sandbox :: filesystem where
  \<comment> \<open>An installed PyOS with two user files.\<close>
  "fs_sandbox = [[''home''] \<mapsto> Dir, [''home'', ''raven''] \<mapsto> Dir, home \<mapsto> Dir,
     home @ [''data''] \<mapsto> Dir, userfiles \<mapsto> Dir, trash \<mapsto> Dir,
     userfiles @ [''notes.txt''] \<mapsto> File (Raw ''hello''),
     userfiles @ [''metadata.json''] \<mapsto> File (Raw ''my own data'')]"

definition fe_start :: file_explorer where
  \<comment> \<open>A file explorer window just opened at the sandbox root.\<close>
  "fe_start = \<lparr>fe_history = [''/home/raven/PyOS/data/userfiles''], fe_history_index = 0,
     current_path = ''/home/raven/PyOS/data/userfiles'',
     fe_address = ''/home/raven/PyOS/data/userfiles'', fe_dialogs = []\<rparr>"

definition meta_outside :: "(string \<times> json) list" where
  \<comment> \<open>A trash entry whose metadata records an original path outside the sandbox.\<close>
  "meta_outside = [(''original_path'', JStr ''/etc/passwd''), (''name'', JStr ''passwd''),
     (''stored_name'', JStr ''passwd''), (''is_dir'', JBool False), (''deleted_at'', JNum 1700000000),
     (''_trash_path'', JStr ''data/trash/77aa'')]"

definition meta_other_drive :: "(string \<times> json) list" where
  \<comment> \<open>A trash entry whose metadata records an original path on the drive \<open>D:\<close>.\<close>
  "meta_other_drive = [(''original_path'', JStr (backslashes ''D:/x'')), (''name'', JStr ''x''),
     (''stored_name'', JStr ''x''), (''is_dir'', JBool False), (''deleted_at'', JNum 1700000000),
     (''_trash_path'', JStr (backslashes ''data/trash/77aa''))]"

definition windows_pyos :: "(string \<Rightarrow> string) \<Rightarrow> os_module \<Rightarrow> os_module" where
  \<comment> \<open>The modules of a PyOS process on Windows whose working directory is \<open>C:\PyOS\<close>.\<close>
  "windows_pyos ul rest = windows_os ul (backslashes ''C:/PyOS'') rest"

definition trash_id :: string where
  \<comment> \<open>A value of \<open>str(uuid.uuid4())\<close>.\<close>
  "trash_id = ''3b9f0c1e-5a7d-4e2b-9c41-0f6a8d2e7b10''"

definition deleted_metadata_json :: "py_error option \<times> filesystem" where
  \<comment> \<open>The user deletes the sandboxed file \<open>metadata.json\<close> in the file explorer.\<close>
  "deleted_metadata_json =
     move_to_trash pyos trash_id 1700000000
       ''/home/raven/PyOS/data/userfiles/metadata.json'' fs_sandbox"

definition deleted_notes :: "py_error option \<times> filesystem" where
  \<comment> \<open>The user deletes the sandboxed file \<open>notes.txt\<close> in the file explorer.\<close>
  "deleted_notes =
     move_to_trash pyos trash_id 1700000000
       ''/home/raven/PyOS/data/userfiles/notes.txt'' fs_sandbox"

definition meta_notes :: "(string \<times> json) list" where
  \<comment> \<open>The dictionary that the recycle bin lists for the deleted \<open>notes.txt\<close>.\<close>
  "meta_notes = [(''original_path'', JStr ''/home/raven/PyOS/data/userfiles/notes.txt''),
     (''name'', JStr ''notes.txt''), (''stored_name'', JStr ''notes.txt''),
     (''is_dir'', JBool False), (''deleted_at'', JNum 1700000000),
     (''_trash_path'', JStr (path_join ''data/trash'' trash_id))]"

section \<open>apps/calculator.py\<close>

text \<open>
  The expression nodes of Python's \<open>ast\<close> module that matter to \<open>_eval_ast\<close>: constants,
  binary and unary operations, the statement node \<open>Expr\<close>, and the nodes of names, calls
  and attribute access; \<open>OtherNode\<close> stands for every other node class. The type \<open>'f\<close>
  is Python's \<open>float\<close> (and the parts of a \<open>complex\<close>).
\<close>

datatype operator =
    Add | Sub | Mult | Div | Mod | Pow | FloorDiv
  | LShift | RShift | BitOr | BitXor | BitAnd | MatMult

datatype unaryop = USub | UAdd | Not | Invert

datatype 'f pyconst =
    CInt int | CFloat 'f | CComplex 'f | CBool bool | CStr string | CBytes string
  | CNone | CEllipsis

datatype 'f expr =
    Constant "'f pyconst"
  | BinOp "'f expr" operator "'f expr"
  | UnaryOp unaryop "'f expr"
  | Expr "'f expr"
  | Name string
  | Call "'f expr" "'f expr list"
  | Attribute "'f expr" string
  | OtherNode

text \<open>The numbers an evaluation returns; \<open>True\<close> and \<open>False\<close> are numbers in Python.\<close>

datatype 'f num = IntV int | FloatV 'f | ComplexV 'f | BoolV bool

text \<open>
  What is taken from Python's numbers as a parameter: the result of an operator of
  \<open>_ALLOWED\<close> that integer arithmetic below does not decide (an operand is a \<open>float\<close> or a
  \<open>complex\<close>, the true division of integers, a power), which may be an exception; and
  the text that \<open>evaluate\<close> displays for a result, \<open>str(int(val))\<close> when
  \<open>int(val) == val\<close> and \<open>str(val)\<close> otherwise, or the exception raised on the way.
\<close>

record 'f arith =
  ar_binop :: "operator \<Rightarrow> 'f num \<Rightarrow> 'f num \<Rightarrow> py_error + 'f num"
  ar_unop :: "unaryop \<Rightarrow> 'f num \<Rightarrow> py_error + 'f num"
  ar_display :: "'f num \<Rightarrow> py_error + string"

definition ALLOWED :: "operator \<Rightarrow> bool" where
  \<comment> \<open>The binary operators that are keys of \<open>_ALLOWED\<close>.\<close>
  "ALLOWED oper = (oper \<in> {Add, Sub, Mult, Div, Mod, Pow, FloorDiv})"

definition ALLOWED_unary :: "unaryop \<Rightarrow> bool" where
  \<comment> \<open>The unary operators that are keys of \<open>_ALLOWED\<close>.\<close>
  "ALLOWED_unary oper = (oper \<in> {USub, UAdd})"

fun as_int :: "'f num \<Rightarrow> int option" where
  \<comment> \<open>The integer an \<open>int\<close> or \<open>bool\<close> operand stands for.\<close>
  "as_int (IntV i) = Some i"
| "as_int (BoolV b) = Some (if b then 1 else 0)"
| "as_int (FloatV x) = None"
| "as_int (ComplexV x) = None"

definition apply_binop :: "'f arith \<Rightarrow> operator \<Rightarrow> 'f num \<Rightarrow> 'f num \<Rightarrow> py_error + 'f num" where
  \<comment> \<open>\<open>_ALLOWED[type(node.op)](a, b)\<close> for an operator of \<open>_ALLOWED\<close>: sums, differences,
      products, floor quotients and remainders of integers are integers, and a division
      of an integer by the integer zero raises.\<close>
  "apply_binop ar oper a b =
     (case (as_int a, as_int b) of
        (Some i, Some j) \<Rightarrow>
          (case oper of
             Add \<Rightarrow> Inr (IntV (i + j))
           | Sub \<Rightarrow> Inr (IntV (i - j))
           | Mult \<Rightarrow> Inr (IntV (i * j))
           | Div \<Rightarrow> if j = 0 then Inl ZeroDivisionError else ar_binop ar oper a b
           | Mod \<Rightarrow> if j = 0 then Inl ZeroDivisionError else Inr (IntV (i mod j))
           | FloorDiv \<Rightarrow> if j = 0 then Inl ZeroDivisionError else Inr (IntV (i div j))
           | _ \<Rightarrow> ar_binop ar oper a b)
      | _ \<Rightarrow> ar_binop ar oper a b)"

definition apply_unaryop :: "'f arith \<Rightarrow> unaryop \<Rightarrow> 'f num \<Rightarrow> py_error + 'f num" where
  \<comment> \<open>\<open>_ALLOWED[type(node.op)](a)\<close> for an operator of \<open>_ALLOWED\<close>\<close>
  "apply_unaryop ar oper a =
     (case as_int a of
        Some i \<Rightarrow> (case oper of USub \<Rightarrow> Inr (IntV (- i)) | UAdd \<Rightarrow> Inr (IntV i)
                   | _ \<Rightarrow> ar_unop ar oper a)
      | None \<Rightarrow> ar_unop ar oper a)"

fun eval_ast :: "'f arith \<Rightarrow> 'f expr \<Rightarrow> py_error + 'f num" where
  \<comment> \<open>\<open>_eval_ast\<close>. The first three equations are the \<open>ast.Num\<close> test, which holds for a
      constant that is an \<open>int\<close>, a \<open>float\<close> or a \<open>complex\<close> but not a \<open>bool\<close>; the fourth
      is the \<open>ast.Constant\<close> test for a \<open>bool\<close>. The table look-up
      \<open>_ALLOWED[type(node.op)]\<close> comes before the operands are evaluated, the left operand
      before the right one.\<close>
  "eval_ast ar (Constant (CInt i)) = Inr (IntV i)"
| "eval_ast ar (Constant (CFloat x)) = Inr (FloatV x)"
| "eval_ast ar (Constant (CComplex x)) = Inr (ComplexV x)"
| "eval_ast ar (Constant (CBool b)) = Inr (BoolV b)"
| "eval_ast ar (Constant c) = Inl ValueError"
| "eval_ast ar (BinOp left oper right) =
     (if \<not> ALLOWED oper then Inl KeyError
      else case eval_ast ar left of
             Inl e \<Rightarrow> Inl e
           | Inr a \<Rightarrow> (case eval_ast ar right of
                          Inl e \<Rightarrow> Inl e
                        | Inr b \<Rightarrow> apply_binop ar oper a b))"
| "eval_ast ar (UnaryOp oper operand) =
     (if \<not> ALLOWED_unary oper then Inl KeyError
      else case eval_ast ar operand of
             Inl e \<Rightarrow> Inl e
           | Inr a \<Rightarrow> apply_unaryop ar oper a)"
| "eval_ast ar (Expr v) = eval_ast ar v"
| "eval_ast ar node = Inl ValueError"

definition safe_eval :: "(string \<Rightarrow> py_error + 'f expr) \<Rightarrow> 'f arith \<Rightarrow> string
    \<Rightarrow> py_error + 'f num" where
  \<comment> \<open>\<open>parse expr\<close> is \<open>ast.parse(expr, mode="eval").body\<close>, or the exception that
      \<open>ast.parse\<close> raises.\<close>
  "safe_eval parse ar expr = (case parse expr of Inl e \<Rightarrow> Inl e | Inr tree \<Rightarrow> eval_ast ar tree)"

fun replace_from :: "string \<Rightarrow> string \<Rightarrow> nat \<Rightarrow> string \<Rightarrow> string" where
  \<comment> \<open>\<open>s.replace(old, new)\<close> for a non-empty \<open>old\<close>; the counter skips the rest of an
      occurrence just replaced.\<close>
  "replace_from old new k [] = []"
| "replace_from old new (Suc k) (c # s) = replace_from old new k s"
| "replace_from old new 0 (c # s) =
     (if prefix old (c # s) then new @ replace_from old new (length old - 1) s
      else c # replace_from old new 0 s)"

definition replace :: "string \<Rightarrow> string \<Rightarrow> string \<Rightarrow> string" where
  "replace old new s = replace_from old new 0 s"

definition normalized :: "string \<Rightarrow> string" where
  \<comment> \<open>\<open>_normalized\<close>: the multiplication sign (U+00D7), the division sign (U+00F7) and
      the minus sign (U+2212), as UTF-8, become \<open>*\<close>, \<open>/\<close>, \<open>-\<close>; a comma becomes a dot.\<close>
  "normalized s =
     replace '','' ''.''
       (replace [CHR 0xE2, CHR 0x88, CHR 0x92] ''-''
          (replace [CHR 0xC3, CHR 0xB7] ''/''
             (replace [CHR 0xC3, CHR 0x97] ''*'' s)))"

definition evaluate :: "(string \<Rightarrow> py_error + 'f expr) \<Rightarrow> 'f arith \<Rightarrow> string \<Rightarrow> string" where
  \<comment> \<open>\<open>CalculatorApp.evaluate\<close>, from the display text to the display text.\<close>
  "evaluate parse ar display =
     (let expr = normalized (strip display) in
      if expr = [] then display
      else case safe_eval parse ar expr of
             Inl e \<Rightarrow> ''Error''
           | Inr val \<Rightarrow> (case ar_display ar val of Inl e \<Rightarrow> ''Error'' | Inr text \<Rightarrow> text))"

subsection \<open>Calculator: notions used in the properties, and examples\<close>

fun arithmetic :: "'f expr \<Rightarrow> bool" where
  \<comment> \<open>A tree of number constants and operators of \<open>_ALLOWED\<close> only.\<close>
  "arithmetic (Constant (CInt i)) = True"
| "arithmetic (Constant (CFloat x)) = True"
| "arithmetic (Constant (CComplex x)) = True"
| "arithmetic (Constant (CBool b)) = True"
| "arithmetic (Constant c) = False"
| "arithmetic (BinOp left oper right) = (ALLOWED oper \<and> arithmetic left \<and> arithmetic right)"
| "arithmetic (UnaryOp oper operand) = (ALLOWED_unary oper \<and> arithmetic operand)"
| "arithmetic (Expr v) = arithmetic v"
| "arithmetic node = False"

fun is_name_call_attribute :: "'f expr \<Rightarrow> bool" where
  "is_name_call_attribute (Name n) = True"
| "is_name_call_attribute (Call f args) = True"
| "is_name_call_attribute (Attribute v a) = True"
| "is_name_call_attribute node = False"

fun has_node :: "('f expr \<Rightarrow> bool) \<Rightarrow> 'f expr \<Rightarrow> bool" where
  \<comment> \<open>Some node of the tree, the root included, is of the given kind.\<close>
  "has_node kind (BinOp left oper right) =
     (kind (BinOp left oper right) \<or> has_node kind left \<or> has_node kind right)"
| "has_node kind (UnaryOp oper operand) = (kind (UnaryOp oper operand) \<or> has_node kind operand)"
| "has_node kind (Expr v) = (kind (Expr v) \<or> has_node kind v)"
| "has_node kind (Call f args) =
     (kind (Call f args) \<or> has_node kind f \<or> list_ex (has_node kind) args)"
| "has_node kind (Attribute v a) = (kind (Attribute v a) \<or> has_node kind v)"
| "has_node kind node = kind node"

definition import_os :: string where
  \<comment> \<open>The text \<open>__import__('os')\<close>\<close>
  "import_os = ''__import__('' @ [CHR 0x27] @ ''os'' @ [CHR 0x27] @ '')''"

definition claim_texts_parse :: "string \<Rightarrow> py_error + unit expr" where
  \<comment> \<open>What \<open>ast.parse(text, mode="eval").body\<close> is for the three texts \<open>2+2*2\<close>, \<open>10/0\<close>
      and \<open>__import__('os')\<close>; a stand-in for \<open>ast.parse\<close> in the examples, which
      refuses every other text.\<close>
  "claim_texts_parse text =
     (if text = ''2+2*2''
      then Inr (BinOp (Constant (CInt 2)) Add (BinOp (Constant (CInt 2)) Mult (Constant (CInt 2))))
      else if text = ''10/0'' then Inr (BinOp (Constant (CInt 10)) Div (Constant (CInt 0)))
      else if text = import_os then Inr (Call (Name ''__import__'') [Constant (CStr ''os'')])
      else Inl SyntaxError)"

definition integers_only :: "unit arith" where
  \<comment> \<open>A stand-in for Python's numbers in the examples, which compute with integers:
      every \<open>float\<close> is the one value of \<open>unit\<close>.\<close>
  "integers_only =
     \<lparr>ar_binop = (\<lambda>oper a b. Inr (FloatV ())), ar_unop = (\<lambda>oper a. Inr a),
      ar_display = (\<lambda>v. case as_int v of
                           Some i \<Rightarrow> Inr ((if i < 0 then ''-'' else []) @ str_nat (nat \<bar>i\<bar>))
                         | None \<Rightarrow> Inr ''nan'')\<rparr>"

section \<open>apps/tetris.py\<close>

datatype shape = SI | SO | ST | SS | SZ | SJ | SL

text \<open>\<open>SHAPES\<close>: the four rotation states of each shape, as (column, row) offsets.\<close>

fun SHAPES :: "shape \<Rightarrow> (int \<times> int) list list" where
  "SHAPES SI = [[(0,1),(1,1),(2,1),(3,1)], [(2,0),(2,1),(2,2),(2,3)],
                [(0,2),(1,2),(2,2),(3,2)], [(1,0),(1,1),(1,2),(1,3)]]"
| "SHAPES SO = [[(1,1),(2,1),(1,2),(2,2)], [(1,1),(2,1),(1,2),(2,2)],
                [(1,1),(2,1),(1,2),(2,2)], [(1,1),(2,1),(1,2),(2,2)]]"
| "SHAPES ST = [[(1,0),(0,1),(1,1),(2,1)], [(1,0),(1,1),(2,1),(1,2)],
                [(0,1),(1,1),(2,1),(1,2)], [(1,0),(0,1),(1,1),(1,2)]]"
| "SHAPES SS = [[(1,0),(2,0),(0,1),(1,1)], [(1,0),(1,1),(2,1),(2,2)],
                [(1,1),(2,1),(0,2),(1,2)], [(0,0),(0,1),(1,1),(1,2)]]"
| "SHAPES SZ = [[(0,0),(1,0),(1,1),(2,1)], [(2,0),(1,1),(2,1),(1,2)],
                [(0,1),(1,1),(1,2),(2,2)], [(1,0),(0,1),(1,1),(0,2)]]"
| "SHAPES SJ = [[(0,0),(0,1),(1,1),(2,1)], [(1,0),(2,0),(1,1),(1,2)],
                [(0,1),(1,1),(2,1),(2,2)], [(1,0),(1,1),(0,2),(1,2)]]"
| "SHAPES SL = [[(2,0),(0,1),(1,1),(2,1)], [(1,0),(1,1),(1,2),(2,2)],
                [(0,1),(1,1),(2,1),(0,2)], [(0,0),(1,0),(1,1),(1,2)]]"

fun PIECE_COLORS :: "shape \<Rightarrow> string" where
  "PIECE_COLORS SI = ''#00cbe6''"
| "PIECE_COLORS SO = ''#e6d300''"
| "PIECE_COLORS ST = ''#a653e6''"
| "PIECE_COLORS SS = ''#4ad153''"
| "PIECE_COLORS SZ = ''#e64d4d''"
| "PIECE_COLORS SJ = ''#4a71d1''"
| "PIECE_COLORS SL = ''#e69b32''"

text \<open>The entries of the settings dictionary \<open>self.s\<close> that the game logic reads.\<close>

record tetris_settings =
  speed_ms :: int
  soft_drop_points :: int
  hard_drop_points :: int

text \<open>
  The fields of \<open>TetrisApp\<close>. A board cell is \<open>None\<close> or the colour of the piece locked
  there. \<open>t_current\<close> is \<open>[shape, rot, x, y]\<close>; \<open>rot\<close> is only ever \<open>0\<close> or a value
  \<open>(rot + dir) % 4\<close>. \<open>t_timer_active\<close> and \<open>t_timer_interval\<close> are the state of the
  \<open>QTimer\<close>, \<open>t_saved_highscore\<close> is the content of \<open>tetris_scores.json\<close>.
\<close>

record tetris =
  t_s :: tetris_settings
  BW :: int
  BH :: int
  t_timer_active :: bool
  t_timer_interval :: int
  t_level :: int
  t_score :: int
  t_lines_cleared :: int
  t_highscore :: int
  t_saved_highscore :: int
  t_board :: "string option list list"
  t_current :: "(shape \<times> nat \<times> int \<times> int) option"
  t_next_queue :: "shape list"
  t_paused :: bool
  t_game_over :: bool
  t_current_speed :: int

definition refill_bag :: "shape list \<Rightarrow> tetris \<Rightarrow> tetris" where
  \<comment> \<open>\<open>_refill_bag\<close>; \<open>bag\<close> is \<open>BAG_ORDER\<close> after \<open>random.shuffle\<close>.\<close>
  "refill_bag bag t = t\<lparr>t_next_queue := t_next_queue t @ bag\<rparr>"

definition cells :: "shape \<Rightarrow> nat \<Rightarrow> int \<Rightarrow> int \<Rightarrow> (int \<times> int) list" where
  "cells sh rot x y = map (\<lambda>(cx, cy). (x + cx, y + cy)) (SHAPES sh ! rot)"

definition collides :: "tetris \<Rightarrow> shape \<Rightarrow> nat \<Rightarrow> int \<Rightarrow> int \<Rightarrow> bool" where
  "collides t sh rot x y =
     list_ex (\<lambda>(cx, cy).
        if cx < 0 \<or> cx \<ge> BW t \<or> cy < 0 \<or> cy \<ge> BH t then True
        else t_board t ! nat cy ! nat cx \<noteq> None)
       (cells sh rot x y)"

definition update_speed :: "tetris \<Rightarrow> tetris" where
  "update_speed t =
     (let sp = max 80 (speed_ms (t_s t) - (t_level t - 1) * 35);
          t1 = t\<lparr>t_current_speed := sp\<rparr>
      in if t_timer_active t1 then t1\<lparr>t_timer_interval := sp\<rparr> else t1)"

definition spawn_piece :: "shape list \<Rightarrow> tetris \<Rightarrow> py_error + tetris" where
  "spawn_piece bag t =
     (let t1 = (if length (t_next_queue t) < 7 then refill_bag bag t else t) in
      case t_next_queue t1 of
        [] \<Rightarrow> Inl IndexError
      | sh # rest \<Rightarrow>
          let x = (BW t1 - 4) div 2;
              t2 = t1\<lparr>t_next_queue := rest, t_current := Some (sh, 0, x, 0)\<rparr>
          in if collides t2 sh 0 x 0
             then let t3 = t2\<lparr>t_game_over := True, t_timer_active := False\<rparr>
                  in if t_score t3 > t_highscore t3
                     then Inr (t3\<lparr>t_highscore := t_score t3, t_saved_highscore := t_score t3\<rparr>)
                     else Inr t3
             else Inr t2)"

definition score_table :: "int list" where
  "score_table = [40, 100, 300, 1200]"

definition clear_lines :: "tetris \<Rightarrow> py_error + tetris" where
  \<comment> \<open>\<open>_clear_lines\<close>; indexing the four-entry tuple beyond its end raises.\<close>
  "clear_lines t =
     (let new_rows = filter (\<lambda>row. list_ex (\<lambda>c. c = None) row) (t_board t);
          cleared = BH t - int (length new_rows)
      in if cleared > 0 then
           if cleared - 1 < int (length score_table) then
             let t1 = t\<lparr>t_lines_cleared := t_lines_cleared t + cleared,
                        t_score := t_score t + score_table ! nat (cleared - 1) * t_level t\<rparr>;
                 t2 = t1\<lparr>t_board := replicate (nat cleared) (replicate (nat (BW t1)) None) @ new_rows\<rparr>;
                 t3 = t2\<lparr>t_level := 1 + t_lines_cleared t2 div 10\<rparr>
             in Inr (update_speed t3)
           else Inl IndexError
         else Inr t)"

definition paint_cell :: "string \<Rightarrow> tetris \<Rightarrow> int \<times> int \<Rightarrow> tetris" where
  "paint_cell color t c =
     (case c of (cx, cy) \<Rightarrow>
        if 0 \<le> cy \<and> cy < BH t \<and> 0 \<le> cx \<and> cx < BW t
        then t\<lparr>t_board := (t_board t)[nat cy := (t_board t ! nat cy)[nat cx := Some color]]\<rparr>
        else t)"

definition lock_piece :: "shape list \<Rightarrow> tetris \<Rightarrow> py_error + tetris" where
  "lock_piece bag t =
     (case t_current t of
        None \<Rightarrow> Inl TypeError
      | Some (sh, rot, x, y) \<Rightarrow>
          (case clear_lines (foldl (paint_cell (PIECE_COLORS sh)) t (cells sh rot x y)) of
             Inl e \<Rightarrow> Inl e
           | Inr t1 \<Rightarrow> spawn_piece bag t1))"

definition move :: "int \<Rightarrow> int \<Rightarrow> shape list \<Rightarrow> tetris \<Rightarrow> py_error + tetris" where
  "move dx dy bag t =
     (case t_current t of
        None \<Rightarrow> Inr t
      | Some (sh, rot, x, y) \<Rightarrow>
          if t_paused t \<or> t_game_over t then Inr t
          else let nx = x + dx; ny = y + dy in
            if \<not> collides t sh rot nx ny then
              let t1 = t\<lparr>t_current := Some (sh, rot, nx, ny)\<rparr>
              in if dy > 0 \<and> dx = 0
                 then Inr (t1\<lparr>t_score := t_score t1 + soft_drop_points (t_s t1)\<rparr>)
                 else Inr t1
            else if dy > 0 \<and> dx = 0 then lock_piece bag t
            else Inr t)"

definition tick :: "shape list \<Rightarrow> tetris \<Rightarrow> py_error + tetris" where
  \<comment> \<open>The timer's timeout handler: gravity.\<close>
  "tick bag t = (if t_paused t \<or> t_game_over t then Inr t else move 0 1 bag t)"

datatype tetris_key = Key_Left | Key_Right | Key_Down

fun keyPressEvent :: "tetris_key \<Rightarrow> shape list \<Rightarrow> tetris \<Rightarrow> py_error + tetris" where
  \<comment> \<open>The movement keys of \<open>keyPressEvent\<close>; \<open>Key_Down\<close> (or S) is the manual soft drop.\<close>
  "keyPressEvent Key_Left bag t = move (-1) 0 bag t"
| "keyPressEvent Key_Right bag t = move 1 0 bag t"
| "keyPressEvent Key_Down bag t = move 0 1 bag t"

subsection \<open>Tetris: notions used in the properties, and example states\<close>

definition full_row :: "string option list \<Rightarrow> bool" where
  \<comment> \<open>A row that \<open>_clear_lines\<close> removes: no cell of it is \<open>None\<close>.\<close>
  "full_row row = (\<not> list_ex (\<lambda>c. c = None) row)"

definition empty_board :: "nat \<Rightarrow> nat \<Rightarrow> string option list list" where
  "empty_board h w = replicate h (replicate w None)"

definition tetris0 :: tetris where
  \<comment> \<open>A fresh default game (10 by 20 board) whose first piece is a T.\<close>
  "tetris0 = \<lparr>t_s = \<lparr>speed_ms = 500, soft_drop_points = 1, hard_drop_points = 2\<rparr>,
     BW = 10, BH = 20, t_timer_active = True, t_timer_interval = 500,
     t_level = 1, t_score = 0, t_lines_cleared = 0, t_highscore = 0, t_saved_highscore = 0,
     t_board = empty_board 20 10, t_current = Some (ST, 0, 3, 0),
     t_next_queue = [SI, SO, ST, SS, SZ, SJ, SL], t_paused = False, t_game_over = False,
     t_current_speed = 500\<rparr>"

definition tetris9 :: tetris where
  \<comment> \<open>Nine lines cleared so far, level 1, and the bottom row now full.\<close>
  "tetris9 = tetris0\<lparr>t_lines_cleared := 9, t_score := 360,
     t_board := empty_board 19 10 @ [replicate 10 (Some ''#00cbe6'')]\<rparr>"

section \<open>apps/snake.py\<close>

text \<open>
  The fields of \<open>SnakeApp\<close> that \<open>_tick\<close> touches. A \<open>QPoint\<close> is a pair of integers;
  \<open>sn_saved_high_score\<close> is the content of \<open>snake.json\<close>.
\<close>

record snake_app =
  sn_timer_active :: bool
  grid_w :: int
  grid_h :: int
  sn_score :: int
  high_score :: int
  sn_saved_high_score :: int
  sn_paused :: bool
  sn_game_over :: bool
  wrap_mode :: bool
  dir :: "int \<times> int"
  next_dir :: "int \<times> int"
  snake :: "(int \<times> int) list"
  food :: "int \<times> int"

definition rand_food :: "((int \<times> int) list \<Rightarrow> int \<times> int) \<Rightarrow> snake_app \<Rightarrow> int \<times> int" where
  \<comment> \<open>\<open>_rand_food\<close>; \<open>choice\<close> stands for \<open>random.choice\<close> on the free cells.\<close>
  "rand_food choice t =
     (let free = filter (\<lambda>c. c \<notin> set (snake t))
                   (concat (map (\<lambda>x. map (\<lambda>y. (x, y)) [0..grid_h t - 1]) [0..grid_w t - 1]))
      in if free = [] then (0, 0) else choice free)"

definition set_game_over :: "snake_app \<Rightarrow> snake_app" where
  "set_game_over t = t\<lparr>sn_game_over := True, sn_timer_active := False\<rparr>"

definition snake_tick :: "((int \<times> int) list \<Rightarrow> int \<times> int) \<Rightarrow> snake_app \<Rightarrow> py_error + snake_app" where
  \<comment> \<open>\<open>SnakeApp._tick\<close>\<close>
  "snake_tick choice t =
     (if sn_paused t \<or> sn_game_over t then Inr t
      else
        let t1 = (if (fst (next_dir t) + fst (dir t), snd (next_dir t) + snd (dir t)) \<noteq> (0, 0)
                  then t\<lparr>dir := next_dir t\<rparr> else t)
        in case snake t1 of
             [] \<Rightarrow> Inl IndexError
           | h # _ \<Rightarrow>
               let moved = (fst h + fst (dir t1), snd h + snd (dir t1));
                   new_head = (if wrap_mode t1
                               then ((fst moved + grid_w t1) mod grid_w t1,
                                     (snd moved + grid_h t1) mod grid_h t1)
                               else moved)
               in if \<not> wrap_mode t1 \<and>
                     \<not> (0 \<le> fst new_head \<and> fst new_head < grid_w t1 \<and>
                        0 \<le> snd new_head \<and> snd new_head < grid_h t1)
                  then Inr (set_game_over t1)
                  else if new_head \<in> set (snake t1) then Inr (set_game_over t1)
                  else
                    let t2 = t1\<lparr>snake := new_head # snake t1\<rparr>
                    in if new_head = food t2
                       then
                         let t3 = t2\<lparr>sn_score := sn_score t2 + 1\<rparr>;
                             t4 = (if sn_score t3 > high_score t3
                                   then t3\<lparr>high_score := sn_score t3,
                                           sn_saved_high_score := sn_score t3\<rparr>
                                   else t3)
                         in Inr (t4\<lparr>food := rand_food choice t4\<rparr>)
                       else Inr (t2\<lparr>snake := butlast (snake t2)\<rparr>))"

subsection \<open>Snake: notions used in the properties, and example states\<close>

definition effective_dir :: "snake_app \<Rightarrow> int \<times> int" where
  \<comment> \<open>The direction a tick moves in: the queued one unless it reverses the current one.\<close>
  "effective_dir t =
     (if (fst (next_dir t) + fst (dir t), snd (next_dir t) + snd (dir t)) \<noteq> (0, 0)
      then next_dir t else dir t)"

definition snake_edge :: snake_app where
  \<comment> \<open>Default 24 by 18 grid, a four-segment snake with its head in the last column.\<close>
  "snake_edge = \<lparr>sn_timer_active = True, grid_w = 24, grid_h = 18, sn_score = 0,
     high_score = 0, sn_saved_high_score = 0, sn_paused = False, sn_game_over = False,
     wrap_mode = True, dir = (1, 0), next_dir = (1, 0),
     snake = [(23, 9), (22, 9), (21, 9), (20, 9)], food = (5, 5)\<rparr>"

definition snake_row :: snake_app where
  \<comment> \<open>The smallest grid (6 wide), after two meals: the snake fills its whole row.\<close>
  "snake_row = \<lparr>sn_timer_active = True, grid_w = 6, grid_h = 6, sn_score = 2,
     high_score = 2, sn_saved_high_score = 2, sn_paused = False, sn_game_over = False,
     wrap_mode = True, dir = (1, 0), next_dir = (1, 0),
     snake = [(5, 3), (4, 3), (3, 3), (2, 3), (1, 3), (0, 3)], food = (2, 2)\<rparr>"

section \<open>apps/calendar.py\<close>

text \<open>
  An event as stored in \<open>calendar.json\<close>: a dictionary whose keys \<open>id\<close>, \<open>title\<close>,
  \<open>time\<close>, \<open>notes\<close> hold strings; a key that is absent is \<open>None\<close>.
\<close>

record event =
  ev_id :: "string option"
  ev_title :: "string option"
  ev_time :: "string option"
  ev_notes :: "string option"

text \<open>A row of the agenda \<open>QListWidget\<close>: its text, its \<open>UserRole\<close> data, its hidden flag.\<close>

record agenda_row =
  row_text :: string
  row_data :: event
  row_hidden :: bool

record calendar_app =
  cal_db :: "string \<rightharpoonup> event list"
  cal_selected_date_key :: string
  cal_search :: string
  cal_list :: "agenda_row list"

definition sort_time :: "event \<Rightarrow> string" where
  \<comment> \<open>The sort key \<open>lambda ev: ev.get("time", "23:59")\<close>\<close>
  "sort_time ev = (case ev_time ev of None \<Rightarrow> ''23:59'' | Some t \<Rightarrow> t)"

definition fill_list :: "event list \<Rightarrow> calendar_app \<Rightarrow> calendar_app" where
  "fill_list items c =
     c\<lparr>cal_list :=
         map (\<lambda>ev.
           let title = (case ev_title ev of None \<Rightarrow> ''(Untitled)'' | Some t \<Rightarrow> t);
               time = (case ev_time ev of None \<Rightarrow> [] | Some t \<Rightarrow> t);
               line = (if time \<noteq> [] then time @ ''  -  '' @ title else title)
           in \<lparr>row_text = line, row_data = ev, row_hidden = False\<rparr>) items\<rparr>"

definition refilter_list :: "(string \<Rightarrow> string) \<Rightarrow> calendar_app \<Rightarrow> calendar_app" where
  \<comment> \<open>\<open>ul\<close> is the Unicode case mapping of \<open>str.lower\<close>.\<close>
  "refilter_list ul c =
     (let query = lower ul (strip (cal_search c)) in
      c\<lparr>cal_list :=
          map (\<lambda>it. let visible = (if query \<noteq> [] then contains query (lower ul (row_text it)) else True)
                    in it\<lparr>row_hidden := \<not> visible\<rparr>) (cal_list c)\<rparr>)"

definition on_date_changed :: "(string \<Rightarrow> string) \<Rightarrow> calendar_app \<Rightarrow> calendar_app" where
  \<comment> \<open>\<open>_on_date_changed\<close>; \<open>list.sort(key=...)\<close> is a stable ascending sort.\<close>
  "on_date_changed ul c =
     (let key = cal_selected_date_key c;
          items = (case cal_db c key of None \<Rightarrow> [] | Some evs \<Rightarrow> evs);
          items = sort_key sort_time items
      in refilter_list ul (fill_list items c))"

subsection \<open>Calendar: notions used in the properties, and example states\<close>

definition stored_events :: "calendar_app \<Rightarrow> event list" where
  "stored_events c = (case cal_db c (cal_selected_date_key c) of None \<Rightarrow> [] | Some evs \<Rightarrow> evs)"

definition agenda :: "(string \<Rightarrow> string) \<Rightarrow> calendar_app \<Rightarrow> event list" where
  \<comment> \<open>The events of the rendered rows, top to bottom, after a date is selected.\<close>
  "agenda ul c = map row_data (cal_list (on_date_changed ul c))"

definition agenda_lines :: "(string \<Rightarrow> string) \<Rightarrow> calendar_app \<Rightarrow> string list" where
  \<comment> \<open>The texts of the rendered rows, top to bottom, after a date is selected.\<close>
  "agenda_lines ul c = map row_text (cal_list (on_date_changed ul c))"

definition ev_0900 :: event where
  "ev_0900 = \<lparr>ev_id = Some ''a'', ev_title = Some ''Standup'', ev_time = Some ''09:00'',
     ev_notes = Some []\<rparr>"

definition ev_2359 :: event where
  "ev_2359 = \<lparr>ev_id = Some ''b'', ev_title = Some ''Backup'', ev_time = Some ''23:59'',
     ev_notes = Some []\<rparr>"

definition ev_empty_time :: event where
  \<comment> \<open>An event whose \<open>time\<close> is the empty string.\<close>
  "ev_empty_time = \<lparr>ev_id = Some ''c'', ev_title = Some ''Call'', ev_time = Some [],
     ev_notes = Some []\<rparr>"

definition ev_no_time :: event where
  \<comment> \<open>An event with no \<open>time\<close> key at all.\<close>
  "ev_no_time = \<lparr>ev_id = Some ''d'', ev_title = Some ''Call'', ev_time = None,
     ev_notes = Some []\<rparr>"

definition calendar_with :: "event list \<Rightarrow> calendar_app" where
  "calendar_with evs = \<lparr>cal_db = [''2025-01-01'' \<mapsto> evs],
     cal_selected_date_key = ''2025-01-01'', cal_search = [], cal_list = []\<rparr>"

section \<open>apps/security_manager.py\<close>

text \<open>
  The toggles of the seven category pages, in page order, as the tuples
  \<open>(key, danger_message_or_None, label_text)\<close> handed to \<open>_card\<close>.
\<close>

definition toggles :: "(string \<times> string option \<times> string) list" where
  "toggles = [
     (''rt_scanning'', Some ''Disabling real-time scanning may expose your system to live threats.'',
        ''Enable real-time scanning''),
     (''rt_cloud'', Some ''Turning this off reduces detection accuracy and speed.'',
        ''Cloud-delivered protection''),
     (''rt_samples'', None,
        ''Automatic sample submission''),
     (''rt_tamper'', Some ''Disabling tamper protection allows malicious apps to alter security settings.'',
        ''Tamper protection''),
     (''rt_cfa'', Some ''Turning this off can allow ransomware to encrypt your files.'',
        ''Controlled folder access''),
     (''rt_suspicious'', None,
        ''Block suspicious activity''),
     (''vtp_updates'', Some ''Without updates, new threats may not be detected.'',
        ''Automatic definition updates''),
     (''vtp_removable'', None,
        ''Scan removable drives''),
     (''vtp_archives'', None,
        ''Scan archives''),
     (''vtp_behavior'', Some ''Disabling behavior analysis can miss zero-day malware.'',
        ''Heuristic/behavior analysis''),
     (''acc_wake_signin'', None,
        ''Require sign-in on wake''),
     (''acc_passwordless'', Some ''Turning this off may reduce account security.'',
        ''Passwordless sign-in (PIN/Hello)''),
     (''acc_weak_pw'', None,
        ''Block weak passwords''),
     (''acc_lockout'', Some ''Disabling lockout increases risk of account takeover.'',
        ''Account lockout on brute force''),
     (''fw_enable'', Some ''Disabling the firewall exposes your device to network attacks.'',
        ''Enable firewall (all profiles)''),
     (''fw_inbound_block'', Some ''Turning this off may allow remote access to services.'',
        ''Block inbound by default''),
     (''fw_notify'', None,
        ''Notify on app block''),
     (''fw_stealth'', None,
        ''Stealth mode (drop pings)''),
     (''ab_smartscreen_apps'', Some ''Disabling SmartScreen can allow untrusted apps to run.'',
        ''SmartScreen for apps''),
     (''ab_smartscreen_dl'', None,
        ''SmartScreen for downloads''),
     (''ab_exploit'', Some ''Turning this off weakens memory protection (DEP/ASLR).'',
        ''Exploit protection (DEP/ASLR)''),
     (''ab_pua'', None,
        ''Block potentially unwanted apps (PUA)''),
     (''dev_secure_boot'', None,
        ''Secure Boot status check''),
     (''dev_core_isolation'', Some ''Disabling memory integrity can allow kernel-level attacks.'',
        ''Core isolation / Memory integrity''),
     (''dev_firmware'', None,
        ''Firmware protection''),
     (''dev_tpm'', None,
        ''TPM health monitoring''),
     (''perf_storage'', None,
        ''Storage health checks''),
     (''perf_batt_thermal'', None,
        ''Battery/thermal health checks''),
     (''perf_file_integrity'', Some ''Turning this off can hide corruption or tampering.'',
        ''Integrity checks on critical files''),
     (''perf_maintenance'', None,
        ''Periodic maintenance scans'')]"

datatype StandardButton = Yes | No

text \<open>
  \<open>sec_file\<close> is the content of \<open>security.json\<close> (\<open>None\<close>: no file); \<open>sec_writable\<close> tells
  whether creating the data directory and writing the file succeed. \<open>_save_state\<close>
  swallows every exception, so a failed write leaves the file as it was.
\<close>

record sec_disk =
  sec_writable :: bool
  sec_file :: "json option"

definition save_state :: "(string \<times> json) list \<Rightarrow> sec_disk \<Rightarrow> sec_disk" where
  \<comment> \<open>\<open>_save_state\<close>\<close>
  "save_state obj d = (if sec_writable d then d\<lparr>sec_file := Some (JObj obj)\<rparr> else d)"

text \<open>
  \<open>SecurityManagerApp\<close>: the in-memory \<open>state\<close> dictionary, the checked flag of each
  check box, the disk, the confirmation dialogs shown so far (title, body) and the
  \<open>stateChanged\<close> signals emitted so far (key, new checked flag).
\<close>

record security_manager =
  sm_state :: "(string \<times> json) list"
  sm_checked :: "string \<Rightarrow> bool"
  sm_disk :: sec_disk
  sm_dialogs :: "(string \<times> string) list"
  sm_signals :: "(string \<times> bool) list"

definition on_toggle :: "string \<Rightarrow> security_manager \<Rightarrow> security_manager" where
  \<comment> \<open>\<open>_on_toggle\<close>\<close>
  "on_toggle key sm =
     (let st = AList.update key (JBool (sm_checked sm key)) (sm_state sm)
      in sm\<lparr>sm_state := st, sm_disk := save_state st (sm_disk sm)\<rparr>)"

definition warn_disable :: "string \<Rightarrow> string \<Rightarrow> StandardButton \<Rightarrow> security_manager
    \<Rightarrow> bool \<times> security_manager" where
  \<comment> \<open>\<open>_warn_disable\<close>; \<open>resp\<close> is the button the user presses in the dialog.\<close>
  "warn_disable title body resp sm =
     (resp = Yes, sm\<lparr>sm_dialogs := sm_dialogs sm @ [(title, body)]\<rparr>)"

definition on_toggle_with_warning ::
    "string \<Rightarrow> string \<Rightarrow> StandardButton \<Rightarrow> security_manager \<Rightarrow> security_manager" where
  \<comment> \<open>\<open>_on_toggle_with_warning\<close>; the revert runs with the check box's signals blocked.\<close>
  "on_toggle_with_warning key danger resp sm =
     (if sm_checked sm key then on_toggle key sm
      else
        case warn_disable ''This setting protects your device''
               (danger @ [CHR 0x0A, CHR 0x0A] @ ''Are you sure you want to turn it OFF?'') resp sm of
          (ok, sm1) \<Rightarrow>
            if \<not> ok then sm1\<lparr>sm_checked := (sm_checked sm1)(key := True)\<rparr>
            else on_toggle key sm1)"

definition user_toggles :: "string \<Rightarrow> StandardButton \<Rightarrow> security_manager \<Rightarrow> security_manager" where
  \<comment> \<open>The user clicks the check box of \<open>key\<close>: Qt flips it and emits \<open>stateChanged\<close>, which
      runs the handler that \<open>_card\<close> connected for this toggle.\<close>
  "user_toggles key resp sm =
     (let now = \<not> sm_checked sm key;
          sm1 = sm\<lparr>sm_checked := (sm_checked sm)(key := now),
                   sm_signals := sm_signals sm @ [(key, now)]\<rparr>
      in case map_of toggles key of
           None \<Rightarrow> sm
         | Some (Some danger, label) \<Rightarrow> on_toggle_with_warning key danger resp sm1
         | Some (None, label) \<Rightarrow> on_toggle key sm1)"

subsection \<open>Security manager: notions used in the properties, and example states\<close>

definition danger_of :: "string \<Rightarrow> string option" where
  \<comment> \<open>The danger message of a toggle key, if the key is in the catalogue with one.\<close>
  "danger_of key = (case map_of toggles key of Some (Some d, label) \<Rightarrow> Some d | _ \<Rightarrow> None)"

definition sm_fresh :: security_manager where
  \<comment> \<open>A first start: no state file, every check box on.\<close>
  "sm_fresh = \<lparr>sm_state = [], sm_checked = (\<lambda>k. True),
     sm_disk = \<lparr>sec_writable = True, sec_file = None\<rparr>, sm_dialogs = [], sm_signals = []\<rparr>"

definition warning_body :: "string \<Rightarrow> string" where
  "warning_body d = d @ [CHR 0x0A, CHR 0x0A] @ ''Are you sure you want to turn it OFF?''"

section \<open>apps/terminal.py\<close>

text \<open>
  What the terminal takes from the platform it runs on. \<open>os.pathsep\<close> is the colon on
  POSIX and the semicolon on Windows. \<open>os.environ\<close> stores a variable under its encoded
  name (the name itself on POSIX, the name in upper case on Windows) and passes every
  assignment and removal to the operating system, which may refuse it. A \<open>pathlib\<close>
  path is kept as its text \<open>str(p)\<close>, and \<open>truediv a b\<close> is \<open>str(Path(a) / b)\<close>.
\<close>

record platform =
  pathsep :: char
  encodekey :: "string \<Rightarrow> string"
  putenv :: "string \<Rightarrow> string \<Rightarrow> py_error option"
  unsetenv :: "string \<Rightarrow> py_error option"
  truediv :: "string \<Rightarrow> string \<Rightarrow> string"

text \<open>
  \<open>os.environ\<close> is one dictionary of the Python process, held here with its encoded
  names in insertion order. A terminal window (\<open>TerminalApp\<close>) has its own output pane
  and working directory; the open windows are kept by number. \<open>fs_resolve\<close>,
  \<open>fs_exists\<close> and \<open>fs_is_file\<close> are \<open>Path.resolve()\<close>, \<open>Path.exists()\<close> and
  \<open>Path.is_file()\<close> on the file system that \<open>which\<close> probes; each may raise.
\<close>

record terminal =
  term_out :: string
  term_cwd :: string

record pyos_process =
  environ :: "(string \<times> string) list"
  terminals :: "nat \<rightharpoonup> terminal"
  fs_resolve :: "string \<Rightarrow> py_error + string"
  fs_exists :: "string \<Rightarrow> py_error + bool"
  fs_is_file :: "string \<Rightarrow> py_error + bool"

definition println :: "string \<Rightarrow> terminal \<Rightarrow> terminal" where
  \<comment> \<open>\<open>_println\<close>\<close>
  "println s t = t\<lparr>term_out := term_out t @ s @ [CHR 0x0A]\<rparr>"

definition environ_get :: "platform \<Rightarrow> (string \<times> string) list \<Rightarrow> string \<Rightarrow> string \<Rightarrow> string" where
  \<comment> \<open>\<open>os.environ.get(name, default)\<close>\<close>
  "environ_get pf env name dflt =
     (case map_of env (encodekey pf name) of None \<Rightarrow> dflt | Some v \<Rightarrow> v)"

definition cmd_env :: "(string \<times> string) list \<Rightarrow> terminal \<Rightarrow> terminal" where
  \<comment> \<open>\<open>_cmd_env\<close>: one line per item of \<open>sorted(os.environ.items())\<close>.\<close>
  "cmd_env env t = foldl (\<lambda>t (k, v). println (k @ ''='' @ v) t) t (sort env)"

definition cmd_set :: "platform \<Rightarrow> string list \<Rightarrow> (string \<times> string) list \<Rightarrow> terminal
    \<Rightarrow> py_error + (string \<times> string) list \<times> terminal" where
  \<comment> \<open>\<open>_cmd_set\<close>. When the assignment to \<open>os.environ\<close> raises, nothing is stored or
      printed.\<close>
  "cmd_set pf args env t =
     (if args = [] then Inr (env, cmd_env env t)
      else
        let line = join_with '' '' args in
        if CHR ''='' \<in> set line then
          case split_first CHR ''='' line of (name, val) \<Rightarrow>
            (case putenv pf (encodekey pf name) val of
               Some e \<Rightarrow> Inl e
             | None \<Rightarrow> Inr (AList.update (encodekey pf name) val env, println (name @ ''='' @ val) t))
        else
          let val = environ_get pf env line []
          in Inr (env, println (line @ ''='' @ val) t))"

fun cmd_unset :: "platform \<Rightarrow> string list \<Rightarrow> (string \<times> string) list
    \<Rightarrow> py_error option \<times> (string \<times> string) list" where
  \<comment> \<open>\<open>_cmd_unset\<close>: \<open>os.environ.pop(name, None)\<close> for each argument in turn. A name
      that is not set is passed over; an exception ends the loop, and the variables
      removed before it stay removed.\<close>
  "cmd_unset pf [] env = (None, env)"
| "cmd_unset pf (name # names) env =
     (case map_of env (encodekey pf name) of
        None \<Rightarrow> cmd_unset pf names env
      | Some v \<Rightarrow>
          (case unsetenv pf (encodekey pf name) of
             Some e \<Rightarrow> (Some e, env)
           | None \<Rightarrow> cmd_unset pf names (AList.delete (encodekey pf name) env)))"

definition cmd_path :: "platform \<Rightarrow> (string \<times> string) list \<Rightarrow> terminal \<Rightarrow> terminal" where
  \<comment> \<open>\<open>_cmd_path\<close>\<close>
  "cmd_path pf env t =
     (let p = environ_get pf env ''PATH'' []
      in foldl (\<lambda>t entry. println entry t) t (split_on (pathsep pf) p))"

definition which_exts :: "string list" where
  "which_exts = [[], ''.exe'', ''.bat'', ''.cmd'', ''.py'']"

fun which_cwd :: "platform \<Rightarrow> pyos_process \<Rightarrow> string \<Rightarrow> string \<Rightarrow> string list
    \<Rightarrow> py_error + string option" where
  \<comment> \<open>The first loop of \<open>_cmd_which\<close>, over the extensions: the candidate it prints, if
      any.\<close>
  "which_cwd pf w cwd name [] = Inr None"
| "which_cwd pf w cwd name (ext # exts) =
     (case fs_resolve w (truediv pf cwd (name @ ext)) of
        Inl e \<Rightarrow> Inl e
      | Inr cand \<Rightarrow>
          (case fs_exists w cand of
             Inl e \<Rightarrow> Inl e
           | Inr found \<Rightarrow>
               if \<not> found then which_cwd pf w cwd name exts
               else (case fs_is_file w cand of
                       Inl e \<Rightarrow> Inl e
                     | Inr is_file \<Rightarrow>
                         if is_file then Inr (Some cand) else which_cwd pf w cwd name exts)))"

fun which_folder :: "platform \<Rightarrow> pyos_process \<Rightarrow> string \<Rightarrow> string \<Rightarrow> string list
    \<Rightarrow> py_error + string option" where
  \<comment> \<open>The inner loop of the second loop of \<open>_cmd_which\<close>, for one folder of \<open>PATH\<close>.\<close>
  "which_folder pf w folder name [] = Inr None"
| "which_folder pf w folder name (ext # exts) =
     (let cand = truediv pf folder (name @ ext) in
      case fs_exists w cand of
        Inl e \<Rightarrow> Inl e
      | Inr found \<Rightarrow> if found then Inr (Some cand) else which_folder pf w folder name exts)"

fun which_path :: "platform \<Rightarrow> pyos_process \<Rightarrow> string list \<Rightarrow> string
    \<Rightarrow> py_error + string option" where
  \<comment> \<open>The second loop of \<open>_cmd_which\<close>, over the folders of \<open>PATH\<close>.\<close>
  "which_path pf w [] name = Inr None"
| "which_path pf w (folder # folders) name =
     (case which_folder pf w folder name which_exts of
        Inl e \<Rightarrow> Inl e
      | Inr (Some cand) \<Rightarrow> Inr (Some cand)
      | Inr None \<Rightarrow> which_path pf w folders name)"

definition cmd_which :: "platform \<Rightarrow> string list \<Rightarrow> pyos_process \<Rightarrow> terminal
    \<Rightarrow> py_error + terminal" where
  \<comment> \<open>\<open>_cmd_which\<close>: first the working directory, then each folder of \<open>PATH\<close>.\<close>
  "cmd_which pf args w t =
     (case args of
        [] \<Rightarrow> Inr (println ''Usage: which <name>'' t)
      | name # _ \<Rightarrow>
          (case which_cwd pf w (term_cwd t) name which_exts of
             Inl e \<Rightarrow> Inl e
           | Inr (Some cand) \<Rightarrow> Inr (println cand t)
           | Inr None \<Rightarrow>
               (case which_path pf w
                       (split_on (pathsep pf) (environ_get pf (environ w) ''PATH'' [])) name of
                  Inl e \<Rightarrow> Inl e
                | Inr (Some cand) \<Rightarrow> Inr (println cand t)
                | Inr None \<Rightarrow> Inr (println ''Not found.'' t))))"

datatype command = Env | Set "string list" | Unset "string list" | Path | Which "string list" | Exit

definition run_command :: "platform \<Rightarrow> nat \<Rightarrow> command \<Rightarrow> pyos_process
    \<Rightarrow> py_error option \<times> pyos_process" where
  \<comment> \<open>The entries \<open>env\<close>, \<open>set\<close>, \<open>unset\<close>, \<open>path\<close>, \<open>which\<close> and \<open>exit\<close> of the command
      table, run in the terminal window \<open>i\<close>: the exception that the entry raises, if
      any, and the process it leaves behind. \<open>exit\<close> closes the window.\<close>
  "run_command pf i c w =
     (case terminals w i of
        None \<Rightarrow> (None, w)
      | Some t \<Rightarrow>
          (case c of
             Env \<Rightarrow> (None, w\<lparr>terminals := (terminals w)(i \<mapsto> cmd_env (environ w) t)\<rparr>)
           | Set args \<Rightarrow>
               (case cmd_set pf args (environ w) t of
                  Inl e \<Rightarrow> (Some e, w)
                | Inr (env, t') \<Rightarrow> (None, w\<lparr>environ := env, terminals := (terminals w)(i \<mapsto> t')\<rparr>))
           | Unset args \<Rightarrow>
               (case cmd_unset pf args (environ w) of (e, env) \<Rightarrow> (e, w\<lparr>environ := env\<rparr>))
           | Path \<Rightarrow> (None, w\<lparr>terminals := (terminals w)(i \<mapsto> cmd_path pf (environ w) t)\<rparr>)
           | Which args \<Rightarrow>
               (case cmd_which pf args w t of
                  Inl e \<Rightarrow> (Some e, w)
                | Inr t' \<Rightarrow> (None, w\<lparr>terminals := (terminals w)(i \<mapsto> t')\<rparr>))
           | Exit \<Rightarrow> (None, w\<lparr>terminals := (terminals w)(i := None)\<rparr>)))"

subsection \<open>Terminal: the POSIX platform, and an example state\<close>

definition pure_root :: "string \<Rightarrow> string" where
  \<comment> \<open>The root of a \<open>PurePosixPath\<close>: two slashes when the text starts with exactly
      two, one when it starts with any other number.\<close>
  "pure_root p =
     (if startswith p ''/''
      then (if startswith p ''//'' \<and> \<not> startswith p ''///'' then ''//'' else ''/'')
      else [])"

definition pure_format :: "string \<Rightarrow> string list \<Rightarrow> string" where
  \<comment> \<open>\<open>str(p)\<close> for a \<open>PurePosixPath\<close> of the given root and parts\<close>
  "pure_format root parts =
     (let text = root @ join_with ''/'' parts in if text = [] then ''.'' else text)"

definition posix_truediv :: "string \<Rightarrow> string \<Rightarrow> string" where
  \<comment> \<open>\<open>str(PurePosixPath(a) / b)\<close>: empty and dot components are dropped; a \<open>b\<close> with
      a root replaces \<open>a\<close>.\<close>
  "posix_truediv a b =
     (if pure_root b \<noteq> [] then pure_format (pure_root b) (path_parts b)
      else pure_format (pure_root a) (path_parts a @ path_parts b))"

definition posix_putenv :: "string \<Rightarrow> string \<Rightarrow> py_error option" where
  \<comment> \<open>\<open>os.putenv\<close> on POSIX: no NUL byte, no equals sign in the name, and
      \<open>setenv\<close> refuses the empty name.\<close>
  "posix_putenv k v =
     (if CHR 0x00 \<in> set k \<or> CHR 0x00 \<in> set v \<or> CHR ''='' \<in> set k then Some ValueError
      else if k = [] then Some OSError
      else None)"

definition posix_unsetenv :: "string \<Rightarrow> py_error option" where
  \<comment> \<open>\<open>os.unsetenv\<close> on POSIX\<close>
  "posix_unsetenv k =
     (if CHR 0x00 \<in> set k then Some ValueError
      else if k = [] \<or> CHR ''='' \<in> set k then Some OSError
      else None)"

definition posix :: platform where
  "posix = \<lparr>pathsep = CHR '':'', encodekey = (\<lambda>k. k), putenv = posix_putenv,
     unsetenv = posix_unsetenv, truediv = posix_truediv\<rparr>"

definition proc0 :: pyos_process where
  \<comment> \<open>Two open terminal windows, 1 and 2, and one file, a tool installed in
      \<open>/opt/bin\<close>; there are no symbolic links, and the paths resolved are absolute.\<close>
  "proc0 = \<lparr>environ = [(''PATH'', ''/usr/bin''), (''USER'', ''raven'')],
     terminals = [1 \<mapsto> \<lparr>term_out = [], term_cwd = ''/home/raven/PyOS''\<rparr>,
                  2 \<mapsto> \<lparr>term_out = ''ready'', term_cwd = ''/home/raven/PyOS''\<rparr>],
     fs_resolve = (\<lambda>p. Inr (if startswith (normpath p) ''//'' then drop 1 (normpath p)
                             else normpath p)),
     fs_exists = (\<lambda>p. Inr (p = ''/opt/bin/tool'')),
     fs_is_file = (\<lambda>p. Inr (p = ''/opt/bin/tool''))\<rparr>"

definition term1 :: terminal where "term1 = \<lparr>term_out = [], term_cwd = ''/home/raven/PyOS''\<rparr>"
definition term2 :: terminal where "term2 = \<lparr>term_out = ''ready'', term_cwd = ''/home/raven/PyOS''\<rparr>"

section \<open>Auxiliary notions for the proofs\<close>

definition clean_part :: "string \<Rightarrow> bool" where
  "clean_part w = (w \<noteq> [] \<and> w \<noteq> ''.'' \<and> w \<noteq> ''..'' \<and> CHR ''/'' \<notin> set w)"

definition mk_missing :: "filesystem \<Rightarrow> string list list \<Rightarrow> filesystem" where
  "mk_missing fs ps = foldl (\<lambda>f p. if lookup f p = None then f(p \<mapsto> Dir) else f) fs ps"

definition loaded :: "string \<Rightarrow> filesystem \<Rightarrow> (string \<times> json) list" where
  "loaded cwd fs = (case saved_overrides cwd fs of Some saved \<Rightarrow> dict_merge DEFAULTS saved | None \<Rightarrow> DEFAULTS)"

definition abs_path :: "nat \<Rightarrow> string list \<Rightarrow> string" where
  "abs_path n cs = replicate n CHR ''/'' @ join_with ''/'' cs"

definition slashes :: "string \<Rightarrow> nat" where
  "slashes path = (if startswith path ''//'' \<and> \<not> startswith path ''///'' then 2 else 1)"

chapter \<open>Properties\<close>

section \<open>Tetris scoring\<close>

lemma score_table_nth:
  "score_table ! 0 = 40" "score_table ! 1 = 100" "score_table ! 2 = 300" "score_table ! 3 = 1200"
  by (simp_all add: score_table_def)

lemma score_table_points:
  assumes "1 \<le> n" "n \<le> 4"
  shows "score_table ! nat (n - 1) =
           (if n = 1 then 40 else if n = 2 then 100 else if n = 3 then 300 else 1200)"
proof -
  from assms consider "n = 1" | "n = 2" | "n = 3" | "n = 4" by linarith
  then show ?thesis by cases (simp_all add: score_table_def)
qed

lemma length_filter_compl:
  "length (filter (\<lambda>x. \<not> P x) xs) + length (filter P xs) = length xs"
  by (induction xs) auto

text \<open>
  Claim C7. When the board has exactly \<open>n\<close> full rows (\<open>n\<close> from 1 to 4) at level 1,
  \<open>_clear_lines\<close> returns normally and adds exactly 40, 100, 300 or 1200 points; the
  line count grows by \<open>n\<close>, the level becomes \<open>1 + lines div 10\<close> and the tick interval
  \<open>max(80, base - (level - 1) * 35)\<close>. In particular, when the line count reaches 10
  with the default base interval of 500 ms, the level is 2 and the interval 465 ms.
\<close>

theorem clear_lines_scoring:
  assumes len: "int (length (t_board t)) = BH t"
    and n: "int (length (filter full_row (t_board t))) = n"
    and range: "1 \<le> n" "n \<le> 4"
    and lvl: "t_level t = 1"
  shows "\<exists>t'. clear_lines t = Inr t'
           \<and> t_score t' = t_score t +
                 (if n = 1 then 40 else if n = 2 then 100 else if n = 3 then 300 else 1200)
           \<and> t_lines_cleared t' = t_lines_cleared t + n
           \<and> t_level t' = 1 + (t_lines_cleared t + n) div 10
           \<and> t_current_speed t' = max 80 (speed_ms (t_s t) - (t_level t' - 1) * 35)
           \<and> (t_lines_cleared t + n = 10 \<and> speed_ms (t_s t) = 500
                \<longrightarrow> t_level t' = 2 \<and> t_current_speed t' = 465)"
proof -
  let ?keep = "filter (\<lambda>row. list_ex (\<lambda>c. c = None) row) (t_board t)"
  have "length (filter full_row (t_board t)) + length ?keep = length (t_board t)"
    unfolding full_row_def by (rule length_filter_compl)
  with len n have cleared: "BH t - int (length ?keep) = n" by linarith
  show ?thesis
    using range lvl cleared score_table_points[OF range]
    by (simp add: clear_lines_def Let_def update_speed_def score_table_def)
qed

lemma tetris9_rows:
  "int (length (t_board tetris9)) = BH tetris9"
  "int (length (filter full_row (t_board tetris9))) = 1"
  "t_level tetris9 = 1" "t_lines_cleared tetris9 = 9" "speed_ms (t_s tetris9) = 500"
  "t_score tetris9 = 360" "t_current_speed tetris9 = 500"
  by (simp_all add: tetris9_def tetris0_def empty_board_def full_row_def list_ex_iff)

theorem clear_lines_scoring_witness:
  "int (length (t_board tetris9)) = BH tetris9
   \<and> int (length (filter full_row (t_board tetris9))) = 1
   \<and> t_level tetris9 = 1 \<and> t_current_speed tetris9 = 500
   \<and> (\<exists>t'. clear_lines tetris9 = Inr t' \<and> t_score t' = 360 + 40 \<and> t_lines_cleared t' = 10
          \<and> t_level t' = 2 \<and> t_current_speed t' = 465)"
  using clear_lines_scoring[of tetris9 1] tetris9_rows by auto

section \<open>Tetris soft drop and gravity\<close>

lemma empty_board_nth: "i < h \<Longrightarrow> j < w \<Longrightarrow> empty_board h w ! i ! j = None"
  by (simp add: empty_board_def)

lemma tetris0_can_fall: "\<not> collides tetris0 ST 0 3 (0 + 1)"
  by (simp add: collides_def cells_def tetris0_def empty_board_nth)

text \<open>
  Claim C5, as stated, fails: the gravity tick is \<open>move(0, 1)\<close>, the same call as the
  manual soft drop, so on a fresh default game one timer tick takes the score from 0
  to 1.
\<close>

theorem gravity_tick_scores_counterexample:
  "t_score tetris0 = 0
   \<and> tick [] tetris0 = Inr (tetris0\<lparr>t_current := Some (ST, 0, 3, 1), t_score := 1\<rparr>)"
  using tetris0_can_fall by (simp add: tick_def move_def tetris0_def)

text \<open>
  Claim C5, amended. In a running game whose piece can fall one row, the manual soft
  drop (the Down key) moves the piece down one row and adds the configured soft-drop
  points to the score, and the automatic gravity tick does exactly the same, score
  included.
\<close>

theorem down_move_awards_soft_drop_points:
  assumes "t_current t = Some (sh, rot, x, y)" "\<not> t_paused t" "\<not> t_game_over t"
    and "\<not> collides t sh rot x (y + 1)"
  shows "keyPressEvent Key_Down bag t =
           Inr (t\<lparr>t_current := Some (sh, rot, x, y + 1),
                  t_score := t_score t + soft_drop_points (t_s t)\<rparr>)
         \<and> tick bag t = keyPressEvent Key_Down bag t"
  using assms by (simp add: tick_def move_def)

theorem down_move_awards_soft_drop_points_witness:
  "t_current tetris0 = Some (ST, 0, 3, 0) \<and> \<not> t_paused tetris0 \<and> \<not> t_game_over tetris0
   \<and> \<not> collides tetris0 ST 0 3 (0 + 1)
   \<and> keyPressEvent Key_Down [] tetris0 =
        Inr (tetris0\<lparr>t_current := Some (ST, 0, 3, 0 + 1),
               t_score := t_score tetris0 + soft_drop_points (t_s tetris0)\<rparr>)
   \<and> tick [] tetris0 = keyPressEvent Key_Down [] tetris0"
proof -
  have a: "t_current tetris0 = Some (ST, 0, 3, 0)" "\<not> t_paused tetris0" "\<not> t_game_over tetris0"
    by (simp_all add: tetris0_def)
  show ?thesis
    using a tetris0_can_fall down_move_awards_soft_drop_points[OF a tetris0_can_fall, of "[]"]
    by simp
qed

section \<open>Snake at the right edge\<close>

text \<open>
  Claim C8, as stated, fails in wrap mode when the snake already occupies column 0 of
  its row: on the 6-wide grid with a six-segment snake filling row 3, the wrapped head
  position is the tail cell, and the tick ends the game instead of advancing.
\<close>

theorem snake_wrap_counterexample:
  "wrap_mode snake_row \<and> hd (snake snake_row) = (grid_w snake_row - 1, 3)
   \<and> effective_dir snake_row = (1, 0)
   \<and> snake_tick hd snake_row = Inr (snake_row\<lparr>sn_game_over := True, sn_timer_active := False\<rparr>)"
  by (simp add: snake_row_def effective_dir_def snake_tick_def set_game_over_def)

text \<open>
  Claim C8, amended. On a tick of a running game with the head in the rightmost column
  and moving right: in wrap mode the new head position is column 0 of the same row, and
  the head advances there unless the snake already occupies that cell, in which case
  the game ends; in non-wrap mode the tick ends the game.
\<close>

theorem snake_right_edge:
  assumes run: "\<not> sn_paused t" "\<not> sn_game_over t"
    and head: "snake t = (grid_w t - 1, y) # body"
    and right: "effective_dir t = (1, 0)"
    and dims: "0 < grid_w t" "0 \<le> y" "y < grid_h t"
  shows "(wrap_mode t \<and> (0, y) \<notin> set (snake t) \<longrightarrow>
           (\<exists>t'. snake_tick choice t = Inr t' \<and> hd (snake t') = (0, y) \<and> \<not> sn_game_over t'))
       \<and> (wrap_mode t \<and> (0, y) \<in> set (snake t) \<longrightarrow>
           snake_tick choice t = Inr (set_game_over (t\<lparr>dir := (1, 0)\<rparr>)))
       \<and> (\<not> wrap_mode t \<longrightarrow>
           snake_tick choice t = Inr (set_game_over (t\<lparr>dir := (1, 0)\<rparr>)))"
proof -
  define t1 where
    "t1 = (if (fst (next_dir t) + fst (dir t), snd (next_dir t) + snd (dir t)) \<noteq> (0, 0)
           then t\<lparr>dir := next_dir t\<rparr> else t)"
  have t1: "t1 = t\<lparr>dir := (1, 0)\<rparr>"
    using right by (auto simp: t1_def effective_dir_def split: if_splits)
  have ymod: "(y + grid_h t) mod grid_h t = y" using dims by simp
  have xmod: "(grid_w t - 1 + 1 + grid_w t) mod grid_w t = 0" by simp
  have a: "wrap_mode t \<and> (0, y) \<notin> set (snake t) \<longrightarrow>
           (\<exists>t'. snake_tick choice t = Inr t' \<and> hd (snake t') = (0, y) \<and> \<not> sn_game_over t')"
    using run head dims ymod xmod unfolding snake_tick_def t1_def[symmetric] t1
    by (auto simp: Let_def)
  have b: "wrap_mode t \<and> (0, y) \<in> set (snake t) \<longrightarrow>
           snake_tick choice t = Inr (set_game_over (t\<lparr>dir := (1, 0)\<rparr>))"
    using run head dims ymod xmod unfolding snake_tick_def t1_def[symmetric] t1
    by (auto simp: Let_def)
  have c: "\<not> wrap_mode t \<longrightarrow> snake_tick choice t = Inr (set_game_over (t\<lparr>dir := (1, 0)\<rparr>))"
    using run head dims unfolding snake_tick_def t1_def[symmetric] t1
    by (auto simp: Let_def)
  from a b c show ?thesis by blast
qed

lemma snake_edge_facts:
  "\<not> sn_paused snake_edge" "\<not> sn_game_over snake_edge"
  "snake snake_edge = (grid_w snake_edge - 1, 9) # [(22, 9), (21, 9), (20, 9)]"
  "effective_dir snake_edge = (1, 0)"
  "0 < grid_w snake_edge" "(0::int) \<le> 9" "9 < grid_h snake_edge"
  by (simp_all add: snake_edge_def effective_dir_def)

theorem snake_right_edge_witness:
  "\<not> sn_paused snake_edge \<and> \<not> sn_game_over snake_edge
   \<and> snake snake_edge = (grid_w snake_edge - 1, 9) # [(22, 9), (21, 9), (20, 9)]
   \<and> effective_dir snake_edge = (1, 0)
   \<and> wrap_mode snake_edge \<and> (0, 9) \<notin> set (snake snake_edge)
   \<and> (\<exists>t'. snake_tick hd snake_edge = Inr t' \<and> hd (snake t') = (0, 9) \<and> \<not> sn_game_over t')
   \<and> snake_tick hd (snake_edge\<lparr>wrap_mode := False\<rparr>)
        = Inr (set_game_over (snake_edge\<lparr>wrap_mode := False, dir := (1, 0)\<rparr>))"
proof -
  have w: "wrap_mode snake_edge" "(0, 9) \<notin> set (snake snake_edge)"
    by (simp_all add: snake_edge_def)
  have nw: "\<not> sn_paused (snake_edge\<lparr>wrap_mode := False\<rparr>)"
    "\<not> sn_game_over (snake_edge\<lparr>wrap_mode := False\<rparr>)"
    "snake (snake_edge\<lparr>wrap_mode := False\<rparr>)
       = (grid_w (snake_edge\<lparr>wrap_mode := False\<rparr>) - 1, 9) # [(22, 9), (21, 9), (20, 9)]"
    "effective_dir (snake_edge\<lparr>wrap_mode := False\<rparr>) = (1, 0)"
    "0 < grid_w (snake_edge\<lparr>wrap_mode := False\<rparr>)" "(0::int) \<le> 9"
    "9 < grid_h (snake_edge\<lparr>wrap_mode := False\<rparr>)"
    by (simp_all add: snake_edge_def effective_dir_def)
  show ?thesis
    using snake_right_edge[OF snake_edge_facts, of hd] snake_right_edge[OF nw, of hd]
      snake_edge_facts(1-4) w
    by simp
qed

section \<open>Calendar agenda order\<close>

lemma agenda_sort: "agenda ul c = sort_key sort_time (stored_events c)"
  by (simp add: agenda_def on_date_changed_def refilter_list_def fill_list_def stored_events_def
      Let_def comp_def)

lemma agenda_is_stable_sort:
  "sorted (map sort_time (agenda ul c))
   \<and> mset (agenda ul c) = mset (stored_events c)
   \<and> filter (\<lambda>ev. sort_time ev = k) (agenda ul c) = filter (\<lambda>ev. sort_time ev = k) (stored_events c)"
  by (simp add: agenda_sort sort_key_stable)

text \<open>
  Claim C4, at its own example. For a date that holds events with the times \<open>"09:00"\<close>,
  \<open>""\<close> and \<open>"23:59"\<close>, the agenda is rendered with the event of the empty time first,
  before the 09:00 event, and not last: the sort key \<open>ev.get("time", "23:59")\<close> is
  \<open>""\<close> for it, because the default of \<open>dict.get\<close> stands in for an absent key only.
  The row of that event shows its title alone, as \<open>_fill_list\<close> renders an event that has
  no time; and an event with no \<open>time\<close> key in the same stored position is rendered
  after the 09:00 event, where the claim places an event lacking a time.
\<close>

theorem empty_time_is_rendered_first:
  "agenda ul (calendar_with [ev_0900, ev_empty_time, ev_2359]) = [ev_empty_time, ev_0900, ev_2359]
   \<and> agenda_lines ul (calendar_with [ev_0900, ev_empty_time, ev_2359])
         = [''Call'', ''09:00  -  Standup'', ''23:59  -  Backup'']
   \<and> agenda ul (calendar_with [ev_no_time, ev_0900, ev_2359]) = [ev_0900, ev_no_time, ev_2359]
   \<and> agenda_lines ul (calendar_with [ev_no_time, ev_0900, ev_2359])
         = [''09:00  -  Standup'', ''Call'', ''23:59  -  Backup'']"
  by (simp add: agenda_def agenda_lines_def on_date_changed_def refilter_list_def fill_list_def
      calendar_with_def sort_time_def ev_0900_def ev_empty_time_def ev_2359_def ev_no_time_def
      Let_def comp_def)

section \<open>Security toggles with a danger warning\<close>

lemma danger_ofD: "danger_of key = Some d \<Longrightarrow> \<exists>label. map_of toggles key = Some (Some d, label)"
  by (auto simp: danger_of_def split: option.splits prod.splits)

text \<open>
  Claim C9. For every toggle key that the catalogue marks with a danger message: when
  its check box is on and the user clicks it, one yes/no confirmation is shown; on No
  the application is as before (state dictionary and state file unchanged, check box
  checked again) apart from the dialog and the click's own signal, the revert emitting
  none; on Yes the state dictionary holds False for the key and \<open>_save_state\<close> is
  called with it at once, which leaves the new dictionary in the state file when the
  file can be written. When the box is off, a click shows no dialog, stores True and
  saves likewise.
\<close>

theorem danger_toggle_confirmation:
  assumes d: "danger_of key = Some d"
  shows "(sm_checked sm key \<longrightarrow>
            user_toggles key No sm =
              sm\<lparr>sm_signals := sm_signals sm @ [(key, False)],
                 sm_dialogs := sm_dialogs sm @ [(''This setting protects your device'', warning_body d)]\<rparr>
          \<and> sm_state (user_toggles key Yes sm) = AList.update key (JBool False) (sm_state sm)
          \<and> sm_disk (user_toggles key Yes sm) = save_state (sm_state (user_toggles key Yes sm)) (sm_disk sm)
          \<and> (sec_writable (sm_disk sm) \<longrightarrow>
               sec_file (sm_disk (user_toggles key Yes sm)) = Some (JObj (sm_state (user_toggles key Yes sm))))
          \<and> map_of (sm_state (user_toggles key Yes sm)) key = Some (JBool False)
          \<and> \<not> sm_checked (user_toggles key Yes sm) key
          \<and> sm_dialogs (user_toggles key Yes sm) =
               sm_dialogs sm @ [(''This setting protects your device'', warning_body d)])
       \<and> (\<not> sm_checked sm key \<longrightarrow>
            sm_dialogs (user_toggles key resp sm) = sm_dialogs sm
          \<and> sm_checked (user_toggles key resp sm) key
          \<and> sm_state (user_toggles key resp sm) = AList.update key (JBool True) (sm_state sm)
          \<and> sm_disk (user_toggles key resp sm) = save_state (sm_state (user_toggles key resp sm)) (sm_disk sm)
          \<and> (sec_writable (sm_disk sm) \<longrightarrow>
               sec_file (sm_disk (user_toggles key resp sm)) = Some (JObj (sm_state (user_toggles key resp sm)))))"
proof -
  from danger_ofD[OF d] obtain label where m: "map_of toggles key = Some (Some d, label)" ..
  have eq: "sm_checked sm key \<Longrightarrow> (sm_checked sm)(key := True) = sm_checked sm" by (rule ext) auto
  show ?thesis
    using eq
    by (simp add: user_toggles_def m on_toggle_with_warning_def warn_disable_def on_toggle_def
        save_state_def Let_def warning_body_def update_conv')
qed

lemma fw_enable_danger:
  "danger_of ''fw_enable'' = Some ''Disabling the firewall exposes your device to network attacks.''"
  by (simp add: danger_of_def toggles_def)

theorem danger_toggle_confirmation_witness:
  "danger_of ''fw_enable'' = Some ''Disabling the firewall exposes your device to network attacks.''
   \<and> sm_checked sm_fresh ''fw_enable''
   \<and> sm_state (user_toggles ''fw_enable'' No sm_fresh) = []
   \<and> sm_disk (user_toggles ''fw_enable'' No sm_fresh) = sm_disk sm_fresh
   \<and> sm_checked (user_toggles ''fw_enable'' No sm_fresh) ''fw_enable''
   \<and> length (sm_dialogs (user_toggles ''fw_enable'' No sm_fresh)) = 1
   \<and> sm_state (user_toggles ''fw_enable'' Yes sm_fresh) = [(''fw_enable'', JBool False)]
   \<and> sec_file (sm_disk (user_toggles ''fw_enable'' Yes sm_fresh))
        = Some (JObj [(''fw_enable'', JBool False)])
   \<and> \<not> sm_checked (user_toggles ''fw_enable'' Yes sm_fresh) ''fw_enable''
   \<and> \<not> sm_checked (user_toggles ''fw_enable'' Yes sm_fresh) ''fw_enable''
   \<and> sm_state (user_toggles ''fw_enable'' Yes (user_toggles ''fw_enable'' Yes sm_fresh))
        = [(''fw_enable'', JBool True)]
   \<and> sm_dialogs (user_toggles ''fw_enable'' Yes (user_toggles ''fw_enable'' Yes sm_fresh))
        = sm_dialogs (user_toggles ''fw_enable'' Yes sm_fresh)"
proof -
  have c: "sm_checked sm_fresh ''fw_enable''" "sec_writable (sm_disk sm_fresh)"
    "sm_state sm_fresh = []" "sm_dialogs sm_fresh = []"
    by (simp_all add: sm_fresh_def)
  note on = danger_toggle_confirmation[OF fw_enable_danger, of sm_fresh]
  have off: "\<not> sm_checked (user_toggles ''fw_enable'' Yes sm_fresh) ''fw_enable''"
    using on c by simp
  note again = danger_toggle_confirmation[OF fw_enable_danger, of "user_toggles ''fw_enable'' Yes sm_fresh" Yes]
  show ?thesis
    using fw_enable_danger c on off again by (simp add: save_state_def)
qed


section \<open>The terminal's environment variables\<close>

lemma term_out_println_fold:
  "term_out (foldl (\<lambda>t x. println (f x) t) t xs) = term_out t @ concat (map (\<lambda>x. f x @ [CHR 0x0A]) xs)"
  by (induction xs arbitrary: t) (simp_all add: println_def)

lemma term_out_cmd_env:
  "term_out (cmd_env env t) =
     term_out t @ concat (map (\<lambda>kv. (fst kv @ ''='' @ snd kv) @ [CHR 0x0A]) (sort env))"
proof -
  have "cmd_env env t = foldl (\<lambda>t kv. println (fst kv @ ''='' @ snd kv) t) t (sort env)"
    by (simp add: cmd_env_def split_def)
  then show ?thesis by (simp only: term_out_println_fold)
qed

lemma contains_append_right: "contains sub s \<Longrightarrow> contains sub (a @ s)"
  by (induction a) auto

lemma prefix_contains: "prefix sub s \<Longrightarrow> contains sub s"
  by (cases s) auto

lemma contains_prefix: "contains sub (sub @ b)"
  by (rule prefix_contains) simp

lemma contains_concat: "x \<in> set xs \<Longrightarrow> contains (f x) (concat (map f xs))"
proof (induction xs)
  case Nil then show ?case by simp
next
  case (Cons y ys)
  show ?case
  proof (cases "x = y")
    case True
    then show ?thesis using contains_prefix[of "f y" "concat (map f ys)"] by simp
  next
    case False
    with Cons have "contains (f x) (concat (map f ys))" by simp
    then show ?thesis using contains_append_right by simp
  qed
qed

lemma split_first_eq:
  "sep \<notin> set name \<Longrightarrow> split_first sep (name @ sep # val) = (name, val)"
  by (induction name) auto

lemma cmd_set_assign:
  assumes "args \<noteq> []" "join_with '' '' args = name @ ''='' @ val"
    "CHR ''='' \<notin> set name" "putenv pf (encodekey pf name) val = None"
  shows "cmd_set pf args env t
           = Inr (AList.update (encodekey pf name) val env, println (name @ ''='' @ val) t)"
  using assms split_first_eq[of "CHR ''=''" name val]
  by (simp add: cmd_set_def Let_def)

lemma cmd_set_show:
  assumes "CHR ''='' \<notin> set name"
  shows "cmd_set pf [name] env t =
           Inr (env, println (name @ ''='' @ (case map_of env (encodekey pf name) of
                                                None \<Rightarrow> [] | Some v \<Rightarrow> v)) t)"
  using assms by (simp add: cmd_set_def environ_get_def Let_def)

lemma env_line_shown:
  assumes "map_of env key = Some val"
  shows "contains (key @ ''='' @ val @ [CHR 0x0A]) (term_out (cmd_env env t))"
proof -
  from assms have "(key, val) \<in> set (sort env)" by (simp add: map_of_SomeD)
  from contains_concat[OF this, of "\<lambda>kv. (fst kv @ ''='' @ snd kv) @ [CHR 0x0A]"]
  show ?thesis by (simp add: term_out_cmd_env contains_append_right)
qed

lemma which_cwd_same_files:
  assumes "fs_resolve w' = fs_resolve w" "fs_exists w' = fs_exists w" "fs_is_file w' = fs_is_file w"
  shows "which_cwd pf w' cwd name exts = which_cwd pf w cwd name exts"
  using assms by (induction exts) (simp_all split: sum.splits)

lemma which_folder_same_files:
  assumes "fs_exists w' = fs_exists w"
  shows "which_folder pf w' folder name exts = which_folder pf w folder name exts"
  using assms by (induction exts) (simp_all add: Let_def split: sum.splits)

lemma split_on_none: "c \<notin> set s \<Longrightarrow> split_on c s = [s]"
  by (induction s) auto

lemma which_finds_on_path:
  assumes path: "map_of (environ w) (encodekey pf ''PATH'') = Some folder"
      "pathsep pf \<notin> set folder"
    and nocwd: "which_cwd pf w (term_cwd t) tool which_exts = Inr None"
    and there: "fs_exists w (truediv pf folder tool) = Inr True"
  shows "cmd_which pf [tool] w t = Inr (println (truediv pf folder tool) t)"
  using path(1) nocwd there split_on_none[OF path(2)]
  by (simp add: cmd_which_def environ_get_def which_exts_def)

text \<open>
  Claim C10. \<open>set NAME=VALUE\<close> in one terminal window changes the environment of the
  process, on every platform on which the assignment to \<open>os.environ\<close> succeeds: in any
  other open window, \<open>set NAME\<close> then prints the new value, \<open>env\<close> lists it under its
  stored name, and, when the name is that of \<open>PATH\<close>, \<open>path\<close> prints the new entries and
  \<open>which\<close> searches the new folder; the change is still there after the issuing window
  has closed; and \<open>unset NAME\<close> removes the variable for every window alike.
\<close>

theorem environment_is_process_wide:
  assumes wi: "terminals w i = Some ti" and wj: "terminals w j = Some tj" and ij: "i \<noteq> j"
    and args: "args \<noteq> []" "join_with '' '' args = name @ ''='' @ val"
    and name: "CHR ''='' \<notin> set name"
    and stored: "putenv pf (encodekey pf name) val = None"
  shows "\<exists>w1. run_command pf i (Set args) w = (None, w1)
      \<and> map_of (environ w1) (encodekey pf name) = Some val
      \<and> terminals w1 j = Some tj
      \<and> (\<exists>w2. run_command pf j (Set [name]) w1 = (None, w2)
             \<and> terminals w2 j = Some (println (name @ ''='' @ val) tj))
      \<and> (\<exists>w2 tj'. run_command pf j Env w1 = (None, w2) \<and> terminals w2 j = Some tj'
             \<and> contains (encodekey pf name @ ''='' @ val @ [CHR 0x0A]) (term_out tj'))
      \<and> (encodekey pf name = encodekey pf ''PATH'' \<longrightarrow>
            (\<exists>w2. run_command pf j Path w1 = (None, w2)
               \<and> terminals w2 j
                   = Some (foldl (\<lambda>t entry. println entry t) tj (split_on (pathsep pf) val))))
      \<and> (encodekey pf name = encodekey pf ''PATH'' \<and> pathsep pf \<notin> set val
           \<and> which_cwd pf w (term_cwd tj) tool which_exts = Inr None
           \<and> fs_exists w (truediv pf val tool) = Inr True \<longrightarrow>
            (\<exists>w2. run_command pf j (Which [tool]) w1 = (None, w2)
               \<and> terminals w2 j = Some (println (truediv pf val tool) tj)))
      \<and> (\<exists>w3. run_command pf i Exit w1 = (None, w3) \<and> terminals w3 i = None
             \<and> environ w3 = environ w1
             \<and> (\<exists>w4. run_command pf j (Set [name]) w3 = (None, w4)
                    \<and> terminals w4 j = Some (println (name @ ''='' @ val) tj)))
      \<and> (unsetenv pf (encodekey pf name) = None \<longrightarrow>
            (\<exists>w5. run_command pf i (Unset [name]) w1 = (None, w5)
               \<and> map_of (environ w5) (encodekey pf name) = None
               \<and> (\<exists>w6. run_command pf j (Set [name]) w5 = (None, w6)
                      \<and> terminals w6 j = Some (println (name @ ''='') tj))))"
proof -
  define key where "key = encodekey pf name"
  define env1 where "env1 = AList.update key val (environ w)"
  define w1 where "w1 = w\<lparr>environ := env1, terminals := (terminals w)(i \<mapsto> println (name @ ''='' @ val) ti)\<rparr>"
  have run: "run_command pf i (Set args) w = (None, w1)"
    using wi cmd_set_assign[OF args name stored, of "environ w" ti]
    by (simp add: run_command_def w1_def env1_def key_def)
  have look: "map_of (environ w1) key = Some val"
    by (simp add: w1_def env1_def update_conv')
  have tj1: "terminals w1 j = Some tj" and ti1: "terminals w1 i = Some (println (name @ ''='' @ val) ti)"
    using wj ij by (simp_all add: w1_def)
  have fs1: "fs_resolve w1 = fs_resolve w" "fs_exists w1 = fs_exists w" "fs_is_file w1 = fs_is_file w"
    by (simp_all add: w1_def)
  have shown: "\<exists>w2. run_command pf j (Set [name]) w1 = (None, w2)
             \<and> terminals w2 j = Some (println (name @ ''='' @ val) tj)"
    using tj1 look cmd_set_show[OF name, of pf "environ w1" tj]
    by (simp add: run_command_def key_def)
  have listed: "\<exists>w2 tj'. run_command pf j Env w1 = (None, w2) \<and> terminals w2 j = Some tj'
             \<and> contains (key @ ''='' @ val @ [CHR 0x0A]) (term_out tj')"
    using tj1 env_line_shown[OF look, of tj] by (simp add: run_command_def)
  have path: "key = encodekey pf ''PATH'' \<longrightarrow>
            (\<exists>w2. run_command pf j Path w1 = (None, w2)
               \<and> terminals w2 j
                   = Some (foldl (\<lambda>t entry. println entry t) tj (split_on (pathsep pf) val)))"
    using tj1 look by (auto simp: run_command_def cmd_path_def environ_get_def)
  have which: "key = encodekey pf ''PATH'' \<and> pathsep pf \<notin> set val
           \<and> which_cwd pf w (term_cwd tj) tool which_exts = Inr None
           \<and> fs_exists w (truediv pf val tool) = Inr True \<longrightarrow>
            (\<exists>w2. run_command pf j (Which [tool]) w1 = (None, w2)
               \<and> terminals w2 j = Some (println (truediv pf val tool) tj))"
  proof
    assume a: "key = encodekey pf ''PATH'' \<and> pathsep pf \<notin> set val
           \<and> which_cwd pf w (term_cwd tj) tool which_exts = Inr None
           \<and> fs_exists w (truediv pf val tool) = Inr True"
    then have "cmd_which pf [tool] w1 tj = Inr (println (truediv pf val tool) tj)"
      using look which_cwd_same_files[OF fs1, of pf "term_cwd tj" tool which_exts]
      by (intro which_finds_on_path) (simp_all add: fs1)
    then show "\<exists>w2. run_command pf j (Which [tool]) w1 = (None, w2)
               \<and> terminals w2 j = Some (println (truediv pf val tool) tj)"
      using tj1 by (simp add: run_command_def)
  qed
  define w3 where "w3 = w1\<lparr>terminals := (terminals w1)(i := None)\<rparr>"
  have exit: "run_command pf i Exit w1 = (None, w3)" using ti1 by (simp add: run_command_def w3_def)
  have w3: "terminals w3 i = None" "environ w3 = environ w1" "terminals w3 j = Some tj"
    using tj1 ij by (simp_all add: w3_def)
  have after_exit: "\<exists>w4. run_command pf j (Set [name]) w3 = (None, w4)
                    \<and> terminals w4 j = Some (println (name @ ''='' @ val) tj)"
    using w3 look cmd_set_show[OF name, of pf "environ w3" tj]
    by (simp add: run_command_def key_def)
  have unset: "unsetenv pf key = None \<longrightarrow>
            (\<exists>w5. run_command pf i (Unset [name]) w1 = (None, w5)
               \<and> map_of (environ w5) key = None
               \<and> (\<exists>w6. run_command pf j (Set [name]) w5 = (None, w6)
                      \<and> terminals w6 j = Some (println (name @ ''='') tj)))"
  proof
    assume u: "unsetenv pf key = None"
    define w5 where "w5 = w1\<lparr>environ := AList.delete key (environ w1)\<rparr>"
    have r5: "run_command pf i (Unset [name]) w1 = (None, w5)"
      using ti1 look u by (simp add: run_command_def w5_def key_def)
    have gone: "map_of (environ w5) key = None" by (simp add: w5_def delete_conv')
    have tj5: "terminals w5 j = Some tj" using tj1 by (simp add: w5_def)
    have "\<exists>w6. run_command pf j (Set [name]) w5 = (None, w6)
                    \<and> terminals w6 j = Some (println (name @ ''='') tj)"
      using tj5 gone cmd_set_show[OF name, of pf "environ w5" tj]
      by (simp add: run_command_def key_def)
    with r5 gone show "\<exists>w5. run_command pf i (Unset [name]) w1 = (None, w5)
               \<and> map_of (environ w5) key = None
               \<and> (\<exists>w6. run_command pf j (Set [name]) w5 = (None, w6)
                      \<and> terminals w6 j = Some (println (name @ ''='') tj))" by blast
  qed
  have closed: "\<exists>w3. run_command pf i Exit w1 = (None, w3) \<and> terminals w3 i = None
             \<and> environ w3 = environ w1
             \<and> (\<exists>w4. run_command pf j (Set [name]) w3 = (None, w4)
                    \<and> terminals w4 j = Some (println (name @ ''='' @ val) tj))"
    using exit w3(1,2) after_exit by blast
  show ?thesis
    unfolding key_def[symmetric]
    by (rule exI[of _ w1]) (intro conjI run look tj1 shown listed path which closed unset)
qed

lemma proc0_facts:
  "terminals proc0 1 = Some term1" "terminals proc0 2 = Some term2" "(1::nat) \<noteq> 2"
  "[''PATH=/opt/bin''] \<noteq> []" "join_with '' '' [''PATH=/opt/bin''] = ''PATH'' @ ''='' @ ''/opt/bin''"
  "CHR ''='' \<notin> set ''PATH''" "putenv posix (encodekey posix ''PATH'') ''/opt/bin'' = None"
  by (simp_all add: proc0_def term1_def term2_def posix_def posix_putenv_def)

lemma proc0_which:
  "encodekey posix ''PATH'' = encodekey posix ''PATH''" "pathsep posix \<notin> set ''/opt/bin''"
  "which_cwd posix proc0 (term_cwd term2) ''tool'' which_exts = Inr None"
  "fs_exists proc0 (truediv posix ''/opt/bin'' ''tool'') = Inr True"
  "truediv posix ''/opt/bin'' ''tool'' = ''/opt/bin/tool''"
  "unsetenv posix (encodekey posix ''PATH'') = None"
  by code_simp+

theorem environment_is_process_wide_witness:
  "terminals proc0 1 = Some term1 \<and> terminals proc0 2 = Some term2
   \<and> join_with '' '' [''PATH=/opt/bin''] = ''PATH'' @ ''='' @ ''/opt/bin''
   \<and> (\<exists>w1. run_command posix 1 (Set [''PATH=/opt/bin'']) proc0 = (None, w1)
        \<and> map_of (environ w1) ''PATH'' = Some ''/opt/bin''
        \<and> (\<exists>w2. run_command posix 2 (Set [''PATH'']) w1 = (None, w2)
               \<and> terminals w2 2 = Some (println ''PATH=/opt/bin'' term2))
        \<and> (\<exists>w2. run_command posix 2 (Which [''tool'']) w1 = (None, w2)
               \<and> terminals w2 2 = Some (println ''/opt/bin/tool'' term2))
        \<and> (\<exists>w3. run_command posix 1 Exit w1 = (None, w3) \<and> terminals w3 1 = None
               \<and> environ w3 = environ w1)
        \<and> (\<exists>w5. run_command posix 1 (Unset [''PATH'']) w1 = (None, w5)
               \<and> map_of (environ w5) ''PATH'' = None))"
proof -
  have k: "encodekey posix ''PATH'' = ''PATH''" by (simp add: posix_def)
  show ?thesis
    using environment_is_process_wide[OF proc0_facts, of "''tool''"] proc0_facts(1,2,5) proc0_which
    unfolding k by auto
qed

section \<open>Paths and the file system\<close>

lemma split_on_nonempty [simp]: "split_on c s \<noteq> []"
  by (induction s) (auto split: list.splits)

lemma split_on_append: "split_on c (a @ c # b) = split_on c a @ split_on c b"
  by (induction a) (auto split: list.splits)

lemma split_on_nosep: "c \<notin> set w \<Longrightarrow> split_on c w = [w]"
  by (induction w) auto

lemma split_on_parts: "w \<in> set (split_on c s) \<Longrightarrow> c \<notin> set w"
  by (induction s arbitrary: w) (auto split: if_splits list.splits)

lemma norm_step_clean: "clean_part w \<Longrightarrow> norm_step b acc w = acc @ [w]"
  by (simp add: norm_step_def clean_part_def)

lemma foldl_norm_step_clean:
  "list_all clean_part cs \<Longrightarrow> foldl (norm_step b) acc cs = acc @ cs"
  by (induction cs arbitrary: acc) (simp_all add: norm_step_clean)

lemma norm_step_empty [simp]: "norm_step b acc [] = acc"
  by (simp add: norm_step_def)

lemma norm_step_keeps_clean:
  assumes "list_all clean_part acc" "CHR ''/'' \<notin> set w"
  shows "list_all clean_part (norm_step True acc w)"
proof -
  have "list_all clean_part (butlast acc)" using assms(1)
    by (simp add: list_all_iff in_set_butlastD)
  then show ?thesis using assms
    by (auto simp: norm_step_def clean_part_def list_all_iff)
qed

lemma foldl_norm_step_keeps_clean:
  "list_all clean_part acc \<Longrightarrow> \<forall>w\<in>set ws. CHR ''/'' \<notin> set w
     \<Longrightarrow> list_all clean_part (foldl (norm_step True) acc ws)"
  by (induction ws arbitrary: acc) (simp_all add: norm_step_keeps_clean)

lemma ncomps_clean: "list_all clean_part (ncomps q)"
  unfolding ncomps_def
  by (rule foldl_norm_step_keeps_clean) (auto dest: split_on_parts)

lemma fs_key_relative:
  assumes "\<not> isabs p"
  shows "fs_key cwd p = foldl (norm_step True) (ncomps cwd) (split_on CHR ''/'' p)"
proof (cases "cwd = [] \<or> last cwd = CHR ''/''")
  case False
  then have "path_join cwd p = cwd @ CHR ''/'' # p"
    using assms by (simp add: path_join_def isabs_def)
  then show ?thesis using assms
    by (simp add: fs_key_def ncomps_def split_on_append)
next
  case True
  show ?thesis
  proof (cases "cwd = []")
    case True
    then show ?thesis using assms by (simp add: fs_key_def ncomps_def path_join_def isabs_def)
  next
    case False
    with True obtain c' where c': "cwd = c' @ [CHR ''/'']"
      by (metis append_butlast_last_id)
    have "path_join cwd p = c' @ CHR ''/'' # p"
      using assms c' by (simp add: path_join_def isabs_def)
    moreover have "split_on CHR ''/'' cwd = split_on CHR ''/'' c' @ [[]]"
      using split_on_append[of "CHR ''/''" c' "[]"] c' by simp
    ultimately show ?thesis using assms
      by (simp add: fs_key_def ncomps_def split_on_append)
  qed
qed

lemma fs_key_data: "fs_key cwd ''data'' = ncomps cwd @ [''data'']"
  by (simp add: fs_key_relative isabs_def startswith_def norm_step_def)

lemma fs_key_settings: "fs_key cwd SETTINGS_FILE = ncomps cwd @ [''data'', ''settings.json'']"
  by (simp add: fs_key_relative isabs_def startswith_def norm_step_def SETTINGS_FILE_def path_join_def)

lemma lookup_upd: "lookup (fs(p \<mapsto> n)) q = (if q = p \<and> q \<noteq> [] then Some n else lookup fs q)"
  by (simp add: lookup_def)

lemma lookup_mk_missing:
  "lookup (mk_missing fs ps) q = (if q \<in> set ps \<and> lookup fs q = None then Some Dir else lookup fs q)"
proof (induction ps arbitrary: fs)
  case Nil
  then show ?case by (simp add: mk_missing_def)
next
  case (Cons p ps)
  have step: "mk_missing fs (p # ps) = mk_missing (if lookup fs p = None then fs(p \<mapsto> Dir) else fs) ps"
    by (simp add: mk_missing_def)
  show ?case unfolding step Cons.IH
    by (auto simp: lookup_upd lookup_def)
qed

lemma makedirs_ok:
  assumes "makedirs True k fs = Inr fs1"
  shows "lookup fs1 k = Some Dir"
    and "\<And>q. \<not> prefix q k \<Longrightarrow> lookup fs1 q = lookup fs q"
    and "makedirs True k fs1 = Inr fs1"
proof -
  have fs1: "lookup fs k = Some Dir \<and> fs1 = fs \<or> lookup fs k = None \<and> fs1 = mk_missing fs (prefixes k)"
    using assms by (auto simp: makedirs_def mk_missing_def split: option.splits node.splits if_splits)
  then show a: "lookup fs1 k = Some Dir"
    by (auto simp: lookup_mk_missing)
  show "\<And>q. \<not> prefix q k \<Longrightarrow> lookup fs1 q = lookup fs q"
    using fs1 by (auto simp: lookup_mk_missing)
  show "makedirs True k fs1 = Inr fs1"
    using a by (simp add: makedirs_def)
qed

lemma map_of_dict_merge: "map_of (dict_merge a b) = map_of a ++ map_of (rev b)"
proof (induction b arbitrary: a)
  case Nil
  then show ?case by (simp add: dict_merge_def)
next
  case (Cons kv b)
  obtain k v where kv: "kv = (k, v)" by (cases kv)
  have "dict_merge a (kv # b) = dict_merge (AList.update k v a) b"
    by (simp add: dict_merge_def kv)
  then have "map_of (dict_merge a (kv # b)) = map_of (AList.update k v a) ++ map_of (rev b)"
    by (simp only: Cons.IH)
  also have "\<dots> = map_of a ++ map_of (rev (kv # b))"
    by (rule ext) (auto simp: map_add_def kv update_conv' split: option.splits)
  finally show ?case .
qed

section \<open>Theme persistence\<close>

lemma distinct_dict_merge: "distinct (map fst a) \<Longrightarrow> distinct (map fst (dict_merge a b))"
  by (induction b arbitrary: a) (auto simp: dict_merge_def distinct_update)

lemma map_of_rev_distinct: "distinct (map fst xs) \<Longrightarrow> map_of (rev xs) = map_of xs"
  by (rule ext) (metis distinct_rev map_of_eq_Some_iff not_Some_eq rev_map set_rev map_of_eq_None_iff set_map)

lemma distinct_DEFAULTS: "distinct (map fst DEFAULTS)"
  by (simp add: DEFAULTS_def)

lemma merge_defaults_idem:
  assumes "colors = DEFAULTS \<or> (\<exists>saved. colors = dict_merge DEFAULTS saved)"
  shows "map_of (dict_merge DEFAULTS colors) = map_of colors"
proof -
  have d: "distinct (map fst colors)" using assms distinct_DEFAULTS distinct_dict_merge by auto
  have sub: "\<And>x. map_of colors x = None \<Longrightarrow> map_of DEFAULTS x = None"
    using assms by (auto simp: map_of_dict_merge map_add_def split: option.splits)
  show ?thesis
    by (rule ext) (auto simp: map_of_dict_merge map_of_rev_distinct[OF d] map_add_def sub
        split: option.splits)
qed

lemma settings_not_prefix: "\<not> prefix (fs_key cwd SETTINGS_FILE) (fs_key cwd ''data'')"
  by (simp add: fs_key_settings fs_key_data)

lemma load_result:
  assumes ok: "makedirs True (fs_key cwd ''data'') fs = Inr fs1"
  shows "load_colors_from_disk cwd fs = (Inr (loaded cwd fs), fs1)"
proof -
  have same: "lookup fs1 (fs_key cwd SETTINGS_FILE) = lookup fs (fs_key cwd SETTINGS_FILE)"
    by (rule makedirs_ok(2)[OF ok settings_not_prefix])
  have ne: "SETTINGS_FILE \<noteq> []" by (simp add: SETTINGS_FILE_def path_join_def)
  show ?thesis
    using same ne
    by (auto simp: load_colors_from_disk_def ok path_exists_def read_file_def loaded_def
        saved_overrides_def split: option.splits node.splits content.splits json.splits)
qed

lemma save_result:
  assumes ok: "makedirs True (fs_key cwd ''data'') fs = Inr fs1"
  shows "save_colors_to_disk cwd colors fs =
           (if lookup fs (fs_key cwd SETTINGS_FILE) = Some Dir then (Inr False, fs1)
            else (Inr True, fs1(fs_key cwd SETTINGS_FILE \<mapsto> File (Json (JObj [(''colors'', JObj colors)])))))"
proof -
  have same: "lookup fs1 (fs_key cwd SETTINGS_FILE) = lookup fs (fs_key cwd SETTINGS_FILE)"
    by (rule makedirs_ok(2)[OF ok settings_not_prefix])
  have par: "lookup fs1 (butlast (fs_key cwd SETTINGS_FILE)) = Some Dir"
    using makedirs_ok(1)[OF ok] by (simp add: fs_key_settings fs_key_data butlast_append)
  show ?thesis
    using same par
    by (auto simp: save_colors_to_disk_def ok write_file_def fs_key_settings
        split: option.splits node.splits)
qed

lemma makedirs_after_write:
  assumes "makedirs True k fs1 = Inr fs1" "k' \<noteq> k" "k \<noteq> []"
  shows "makedirs True k (fs1(k' \<mapsto> n)) = Inr (fs1(k' \<mapsto> n))"
proof -
  have "lookup fs1 k = Some Dir" using makedirs_ok(1)[OF assms(1)] .
  then have "lookup (fs1(k' \<mapsto> n)) k = Some Dir" using assms(2,3) by (simp add: lookup_def)
  then show ?thesis by (simp add: makedirs_def)
qed

lemma save_loaded_step:
  assumes ok: "makedirs True (fs_key cwd ''data'') fs = Inr fs1"
  shows "colors_on_disk cwd (save_loaded cwd fs) = Some (map_of (loaded cwd fs))"
    and "makedirs True (fs_key cwd ''data'') (save_loaded cwd fs) = Inr (save_loaded cwd fs)"
proof -
  let ?k = "fs_key cwd ''data''" and ?s = "fs_key cwd SETTINGS_FILE"
  let ?doc = "File (Json (JObj [(''colors'', JObj (loaded cwd fs))]))"
  have ok1: "makedirs True ?k fs1 = Inr fs1" by (rule makedirs_ok(3)[OF ok])
  have same: "lookup fs1 ?s = lookup fs ?s"
    by (rule makedirs_ok(2)[OF ok settings_not_prefix])
  have sl: "save_loaded cwd fs = (if lookup fs ?s = Some Dir then fs1 else fs1(?s \<mapsto> ?doc))"
    using same by (simp add: save_loaded_def load_result[OF ok] save_result[OF ok1])
  have kne: "?s \<noteq> ?k" "?k \<noteq> []" "?s \<noteq> []" by (simp_all add: fs_key_settings fs_key_data)
  show ok2: "makedirs True ?k (save_loaded cwd fs) = Inr (save_loaded cwd fs)"
    using ok1 makedirs_after_write[OF ok1 kne(1,2)] by (simp add: sl)
  have "loaded cwd (save_loaded cwd fs) =
          (if lookup fs ?s = Some Dir then loaded cwd fs else dict_merge DEFAULTS (loaded cwd fs))"
    using same kne(3) by (auto simp: sl loaded_def saved_overrides_def lookup_def)
  moreover have "map_of (dict_merge DEFAULTS (loaded cwd fs)) = map_of (loaded cwd fs)"
    by (rule merge_defaults_idem) (auto simp: loaded_def split: option.splits)
  ultimately show "colors_on_disk cwd (save_loaded cwd fs) = Some (map_of (loaded cwd fs))"
    by (simp add: colors_on_disk_def load_result[OF ok2])
qed

lemma ncomps_home: "ncomps ''/home/raven/PyOS'' = home"
  by (simp add: ncomps_def norm_step_def home_def)

text \<open>
  Claim C6, as stated, fails: \<open>os.makedirs("data", exist_ok=True)\<close> stands before the
  \<open>try\<close> of \<open>load_colors_from_disk\<close>, so when the working directory holds a regular
  file named \<open>data\<close> the function raises \<open>FileExistsError\<close>.
\<close>

theorem load_colors_raises_counterexample:
  "load_colors_from_disk ''/home/raven/PyOS'' fs_data_is_file = (Inl FileExistsError, fs_data_is_file)"
  by (simp add: load_colors_from_disk_def fs_key_data ncomps_home makedirs_def lookup_def
      fs_data_is_file_def home_def)

lemma colors_on_disk_loaded:
  assumes "makedirs True (fs_key cwd ''data'') fs = Inr fs1"
  shows "colors_on_disk cwd fs = Some (map_of (loaded cwd fs))"
  by (simp add: colors_on_disk_def load_result[OF assms])

lemma save_loaded_iterate:
  assumes ok: "makedirs True (fs_key cwd ''data'') fs = Inr fs1"
  shows "colors_on_disk cwd ((save_loaded cwd ^^ n) fs) = colors_on_disk cwd fs
       \<and> (\<exists>fs'. makedirs True (fs_key cwd ''data'') ((save_loaded cwd ^^ n) fs) = Inr fs')"
proof (induction n)
  case 0
  then show ?case using ok by simp
next
  case (Suc n)
  then obtain fs' where ok': "makedirs True (fs_key cwd ''data'') ((save_loaded cwd ^^ n) fs) = Inr fs'"
    and same: "colors_on_disk cwd ((save_loaded cwd ^^ n) fs) = colors_on_disk cwd fs"
    by blast
  from save_loaded_step[OF ok'] colors_on_disk_loaded[OF ok'] same
  show ?case by auto
qed

text \<open>
  Claim C6, amended. When the data directory exists or can be created,
  \<open>load_colors_from_disk\<close> does not raise and returns the compiled-in defaults merged
  under the saved overrides (the defaults alone on any read or parse failure); the
  palette it returns has the five colour keys; and after any number of applications of
  \<open>save_colors_to_disk(load_colors_from_disk())\<close> the settings document still means the
  same palette, key by key.
\<close>

theorem settings_round_trip:
  assumes ok: "makedirs True (fs_key cwd ''data'') fs = Inr fs1"
  shows "load_colors_from_disk cwd fs =
           (Inr (case saved_overrides cwd fs of
                   Some saved \<Rightarrow> dict_merge DEFAULTS saved | None \<Rightarrow> DEFAULTS), fs1)
       \<and> (\<forall>n. colors_on_disk cwd ((save_loaded cwd ^^ n) fs) = colors_on_disk cwd fs)
       \<and> (\<exists>palette. colors_on_disk cwd fs = Some palette \<and> fst ` set DEFAULTS \<subseteq> dom palette)"
proof -
  have l: "load_colors_from_disk cwd fs = (Inr (loaded cwd fs), fs1)" by (rule load_result[OF ok])
  have "fst ` set DEFAULTS \<subseteq> dom (map_of (dict_merge DEFAULTS saved))" for saved
    unfolding map_of_dict_merge dom_map_add by (simp add: dom_map_of_conv_image_fst)
  then have five: "fst ` set DEFAULTS \<subseteq> dom (map_of (loaded cwd fs))"
    unfolding loaded_def by (cases "saved_overrides cwd fs") (simp_all add: dom_map_of_conv_image_fst)
  show ?thesis
    using l five save_loaded_iterate[OF ok] colors_on_disk_loaded[OF ok]
    by (simp add: loaded_def)
qed

lemma fs_saved_theme_ok:
  "makedirs True (fs_key ''/home/raven/PyOS'' ''data'') fs_saved_theme = Inr fs_saved_theme"
  by (simp add: fs_key_data ncomps_home makedirs_def lookup_def fs_saved_theme_def home_def)

lemma fs_saved_theme_overrides:
  "saved_overrides ''/home/raven/PyOS'' fs_saved_theme = Some [(''text'', JStr ''#00FF00'')]"
  by (simp add: saved_overrides_def fs_key_settings ncomps_home lookup_def fs_saved_theme_def home_def)

theorem settings_round_trip_witness:
  "makedirs True (fs_key ''/home/raven/PyOS'' ''data'') fs_saved_theme = Inr fs_saved_theme
   \<and> load_colors_from_disk ''/home/raven/PyOS'' fs_saved_theme =
       (Inr [(''text'', JStr ''#00FF00''), (''desktop_bg'', JStr ''#1E1E1E''),
             (''taskbar_bg'', JStr ''#333333''), (''start_bg'', JStr ''#444444''),
             (''window_bg'', JStr ''#2E2E2E'')], fs_saved_theme)
   \<and> colors_on_disk ''/home/raven/PyOS'' ((save_loaded ''/home/raven/PyOS'' ^^ 3) fs_saved_theme)
       = colors_on_disk ''/home/raven/PyOS'' fs_saved_theme"
  using settings_round_trip[OF fs_saved_theme_ok] fs_saved_theme_ok fs_saved_theme_overrides
  by (simp add: dict_merge_def DEFAULTS_def)

lemma split_join:
  "list_all clean_part cs \<Longrightarrow> cs \<noteq> [] \<Longrightarrow> split_on CHR ''/'' (join_with ''/'' cs) = cs"
proof (induction "''/''" cs rule: join_with.induct)
  case 1
  then show ?case by simp
next
  case (2 w)
  then show ?case by (simp add: clean_part_def split_on_nosep)
next
  case (3 w v ws)
  then have "split_on CHR ''/'' (join_with ''/'' (v # ws)) = v # ws" by simp
  moreover have "split_on CHR ''/'' w = [w]" using 3 by (simp add: clean_part_def split_on_nosep)
  ultimately show ?case using split_on_append[of "CHR ''/''" w "join_with ''/'' (v # ws)"] by simp
qed

lemma join_hd: "list_all clean_part cs \<Longrightarrow> \<not> startswith (join_with ''/'' cs) (CHR ''/'' # s)"
proof (cases cs)
  case Nil
  then show ?thesis by (simp add: startswith_def)
next
  case (Cons w ws)
  assume "list_all clean_part cs"
  then have "w \<noteq> []" "CHR ''/'' \<notin> set w" using Cons by (auto simp: clean_part_def)
  then obtain c u where "w = c # u" "c \<noteq> CHR ''/''" by (cases w) auto
  then show ?thesis using Cons by (cases ws) (simp_all add: startswith_def)
qed

lemma split_abs_path:
  "list_all clean_part cs \<Longrightarrow>
     foldl (norm_step b) [] (split_on CHR ''/'' (abs_path n cs)) = cs"
proof (induction n)
  case 0
  then show ?case
    by (cases "cs = []") (simp_all add: abs_path_def split_join foldl_norm_step_clean)
next
  case (Suc n)
  then show ?case by (simp add: abs_path_def)
qed

lemma ncomps_abs_path: "list_all clean_part cs \<Longrightarrow> ncomps (abs_path n cs) = cs"
  by (simp add: ncomps_def split_abs_path)

lemma slashes_abs_path:
  "list_all clean_part cs \<Longrightarrow> n = 1 \<or> n = 2 \<Longrightarrow> slashes (abs_path n cs) = n"
  using join_hd[of cs "[]"] join_hd[of cs]
  by (cases "join_with ''/'' cs") (auto simp: slashes_def abs_path_def startswith_def numeral_2_eq_2)

lemma normpath_abs:
  assumes "isabs q"
  shows "normpath q = abs_path (slashes q) (ncomps q)"
proof -
  have "q \<noteq> []" using assms by (auto simp: isabs_def startswith_def)
  then show ?thesis using assms
    by (auto simp: normpath_def isabs_def slashes_def ncomps_def abs_path_def Let_def)
qed

lemma isabs_abs_path: "0 < n \<Longrightarrow> isabs (abs_path n cs)"
  by (cases n) (simp_all add: isabs_def startswith_def abs_path_def)

lemma slashes_range: "slashes q = 1 \<or> slashes q = 2"
  by (simp add: slashes_def)

lemma normpath_idem:
  assumes "isabs q"
  shows "normpath (normpath q) = normpath q" "isabs (normpath q)"
proof -
  have n: "normpath q = abs_path (slashes q) (ncomps q)" by (rule normpath_abs[OF assms])
  have a: "isabs (abs_path (slashes q) (ncomps q))"
    using slashes_range[of q] by (auto intro: isabs_abs_path)
  show "isabs (normpath q)" using a n by simp
  have s: "slashes (abs_path (slashes q) (ncomps q)) = slashes q"
    by (rule slashes_abs_path[OF ncomps_clean slashes_range])
  show "normpath (normpath q) = normpath q"
    unfolding n normpath_abs[OF a]
    by (simp add: ncomps_abs_path ncomps_clean s)
qed

lemma isabs_path_join: "isabs cwd \<Longrightarrow> isabs (if isabs p then p else path_join cwd p)"
  by (auto simp: isabs_def startswith_def path_join_def prefix_def)

lemma abspath_idem:
  assumes "isabs cwd"
  shows "abspath cwd (abspath cwd p) = abspath cwd p" "isabs (abspath cwd p)"
proof -
  let ?q = "if isabs p then p else path_join cwd p"
  have q: "isabs ?q" by (rule isabs_path_join[OF assms])
  show a: "isabs (abspath cwd p)" unfolding abspath_def by (rule normpath_idem(2)[OF q])
  show "abspath cwd (abspath cwd p) = abspath cwd p"
    using a normpath_idem(1)[OF q] by (simp add: abspath_def)
qed

lemma fs_key_abspath:
  assumes "isabs cwd"
  shows "fs_key cwd (abspath cwd p) = fs_key cwd p"
proof -
  let ?q = "if isabs p then p else path_join cwd p"
  have q: "isabs ?q" by (rule isabs_path_join[OF assms])
  have "fs_key cwd (abspath cwd p) = ncomps (normpath ?q)"
    using abspath_idem(2)[OF assms, of p] by (simp add: fs_key_def abspath_def)
  also have "\<dots> = ncomps ?q"
    by (simp add: normpath_abs[OF q] ncomps_abs_path ncomps_clean)
  finally show ?thesis by (simp add: fs_key_def)
qed

section \<open>Sandbox containment\<close>

lemma posix_os_sel [simp]:
  "os_path_join (posix_os cwd) = path_join" "os_path_abspath (posix_os cwd) = abspath cwd"
  "os_path_commonpath (posix_os cwd) = commonpath" "os_path_dirname (posix_os cwd) = dirname"
  "os_path_basename (posix_os cwd) = basename" "os_path_splitext (posix_os cwd) = splitext"
  "os_path_exists (posix_os cwd) = (\<lambda>fs p. path_exists fs cwd p)"
  "os_path_isdir (posix_os cwd) = (\<lambda>fs p. path_isdir fs cwd p)"
  "os_makedirs (posix_os cwd) = posix_makedirs cwd"
  "os_rename (posix_os cwd) = (\<lambda>src dst. posix_rename (fs_key cwd src) (fs_key cwd dst))"
  "open_write (posix_os cwd) = (\<lambda>p. write_file (fs_key cwd p))"
  "open_read (posix_os cwd) = (\<lambda>p. read_file (fs_key cwd p))"
  "shutil_move (posix_os cwd) = posix_move cwd"
  "shutil_rmtree (posix_os cwd) = (\<lambda>p. rmtree (fs_key cwd p))"
  by (simp_all add: posix_os_def)

lemma commonpath_abs: "isabs a \<Longrightarrow> isabs b \<Longrightarrow> \<exists>c. commonpath a b = Inr c"
  unfolding commonpath_def Let_def by (simp only: if_False simp_thms sum.inject)

lemma within_root_iff:
  assumes "isabs cwd"
  shows "within_root (posix_os cwd) p = Inr (\<not> escapes_root (posix_os cwd) p)"
    and "safe_within_root (posix_os cwd) p = Inr (\<not> escapes_root (posix_os cwd) p)"
proof -
  obtain c where c: "commonpath (abspath cwd (ROOT_DIR (posix_os cwd))) (abspath cwd p) = Inr c"
    using commonpath_abs[OF abspath_idem(2)[OF assms] abspath_idem(2)[OF assms]] by blast
  show "within_root (posix_os cwd) p = Inr (\<not> escapes_root (posix_os cwd) p)"
    unfolding within_root_def escapes_root_def Let_def posix_os_sel c by auto
  show "safe_within_root (posix_os cwd) p = Inr (\<not> escapes_root (posix_os cwd) p)"
    unfolding safe_within_root_def escapes_root_def Let_def posix_os_sel c by auto
qed

lemma escapes_root_abspath:
  "isabs cwd \<Longrightarrow> escapes_root (posix_os cwd) (abspath cwd p) = escapes_root (posix_os cwd) p"
  unfolding escapes_root_def posix_os_sel by (simp only: abspath_idem)

lemma rejected_entryD:
  assumes "rejected_entry os meta"
  shows "\<exists>tdir stored_name orig.
    map_of meta ''_trash_path'' = Some (JStr tdir) \<and>
    map_of meta ''stored_name'' = Some (JStr stored_name) \<and>
    map_of meta ''original_path'' = Some (JStr orig) \<and> escapes_root os orig"
proof (cases "map_of meta ''_trash_path''")
  case None
  then show ?thesis using assms by (simp add: rejected_entry_def)
next
  case (Some a)
  note a = this
  show ?thesis
  proof (cases "map_of meta ''stored_name''")
    case None
    then show ?thesis using assms a by (cases a) (simp_all add: rejected_entry_def)
  next
    case (Some b)
    note b = this
    show ?thesis
    proof (cases "map_of meta ''original_path''")
      case None
      then show ?thesis using assms a b by (cases a; cases b) (simp_all add: rejected_entry_def)
    next
      case (Some c)
      then show ?thesis using assms a b
        by (cases a; cases b; cases c) (simp_all add: rejected_entry_def)
    qed
  qed
qed

lemma restore_one_rejected:
  assumes cwd: "isabs cwd" and r: "rejected_entry (posix_os cwd) meta"
  shows "restore_one (posix_os cwd) meta fs = Some (None, False, fs)"
proof -
  from rejected_entryD[OF r] obtain tdir stored_name orig where
    m: "map_of meta ''_trash_path'' = Some (JStr tdir)"
       "map_of meta ''stored_name'' = Some (JStr stored_name)"
       "map_of meta ''original_path'' = Some (JStr orig)"
    and e: "escapes_root (posix_os cwd) orig"
    by blast
  show ?thesis
    unfolding restore_one_def
    by (simp add: m within_root_iff(2)[OF cwd] e)
qed

lemma restore_loop_rejected:
  assumes "isabs cwd" "list_all (rejected_entry (posix_os cwd)) metas"
  shows "restore_loop (posix_os cwd) metas n fs = Some (None, n, fs)"
  using assms(2) by (induction metas) (simp_all add: restore_one_rejected[OF assms(1)])

lemma ensure_dirs_present:
  assumes "path_isdir fs cwd (TRASH_DIR (posix_os cwd))" "path_isdir fs cwd (ROOT_DIR (posix_os cwd))"
  shows "ensure_dirs (posix_os cwd) fs = (None, fs)"
  using assms by (simp add: ensure_dirs_def posix_makedirs_def makedirs_def path_isdir_def)

text \<open>
  The sandbox on POSIX. In a process whose working directory is absolute: when the
  resolved absolute form of the requested path does not have the sandbox root as its
  common-path prefix, \<open>navigate\<close>, \<open>new_folder\<close> and \<open>rename_selected\<close> show their
  "Blocked" warning and change neither the window's fields (so \<open>current_path\<close> is as
  before) nor the file system; a trash entry whose recorded original path is outside
  the root is skipped by the restore loop without a dialog and without touching the
  file system; and a restore of such entries only leaves the file system as it is
  (its closing \<open>load_items()\<close> re-creates the two data directories should they be
  missing).
\<close>

lemma sandbox_containment_posix:
  assumes cwd: "isabs cwd"
  defines "os \<equiv> posix_os cwd"
  shows "(escapes_root os p \<longrightarrow>
            navigate os p push fe fs =
              (None, show_dialog (Warning ''Blocked''
                       ''Navigation outside data/userfiles is not allowed.'') fe, fs)
          \<and> current_path (fst (snd (navigate os p push fe fs))) = current_path fe)
       \<and> (ok \<and> strip name \<noteq> [] \<and> escapes_root os (path_join (current_path fe) (strip name)) \<longrightarrow>
            new_folder os (name, ok) fe fs =
              (None, show_dialog (Warning ''Blocked'' ''Cannot create folder outside sandbox.'') fe, fs))
       \<and> (sel \<noteq> [] \<and> ok \<and> strip name \<noteq> []
            \<and> escapes_root os (path_join (dirname sel) (strip name)) \<longrightarrow>
            rename_selected os (Some sel) (name, ok) fe fs =
              (None, show_dialog (Warning ''Blocked'' ''Cannot move/rename outside sandbox.'') fe, fs))
       \<and> (rejected_entry os meta \<longrightarrow> restore_one os meta fs = Some (None, False, fs))
       \<and> (metas \<noteq> [] \<and> list_all (rejected_entry os) metas \<longrightarrow>
            restore_selected os metas dialogs fs =
              Some (fst (ensure_dirs os fs), dialogs, snd (ensure_dirs os fs)))
       \<and> (metas \<noteq> [] \<and> list_all (rejected_entry os) metas
            \<and> path_isdir fs cwd (TRASH_DIR os) \<and> path_isdir fs cwd (ROOT_DIR os) \<longrightarrow>
            restore_selected os metas dialogs fs = Some (None, dialogs, fs))"
proof -
  have nav: "navigate os p push fe fs =
              (None, show_dialog (Warning ''Blocked''
                       ''Navigation outside data/userfiles is not allowed.'') fe, fs)"
    if "escapes_root os p"
    unfolding navigate_def Let_def
    using that by (simp add: os_def within_root_iff(1)[OF cwd] escapes_root_abspath[OF cwd])
  have cur: "current_path (fst (snd (navigate os p push fe fs))) = current_path fe"
    if "escapes_root os p"
    by (simp add: nav[OF that] show_dialog_def)
  have new: "new_folder os (name, ok) fe fs =
              (None, show_dialog (Warning ''Blocked'' ''Cannot create folder outside sandbox.'') fe, fs)"
    if "ok" "strip name \<noteq> []" "escapes_root os (path_join (current_path fe) (strip name))"
    unfolding new_folder_def Let_def
    using that by (simp add: os_def within_root_iff(1)[OF cwd])
  have ren: "rename_selected os (Some sel) (name, ok) fe fs =
              (None, show_dialog (Warning ''Blocked'' ''Cannot move/rename outside sandbox.'') fe, fs)"
    if "sel \<noteq> []" "ok" "strip name \<noteq> []" "escapes_root os (path_join (dirname sel) (strip name))"
    unfolding rename_selected_def Let_def
    using that by (simp add: os_def within_root_iff(1)[OF cwd])
  have sel: "restore_selected os metas dialogs fs =
              Some (fst (ensure_dirs os fs), dialogs, snd (ensure_dirs os fs))"
    if "metas \<noteq> []" "list_all (rejected_entry os) metas"
    unfolding restore_selected_def Let_def
    using that
    by (cases "ensure_dirs os fs"; cases "fst (ensure_dirs os fs)")
       (simp_all add: os_def restore_loop_rejected[OF cwd])
  have sel2: "restore_selected os metas dialogs fs = Some (None, dialogs, fs)"
    if "metas \<noteq> []" "list_all (rejected_entry os) metas"
      "path_isdir fs cwd (TRASH_DIR os)" "path_isdir fs cwd (ROOT_DIR os)"
    using sel[OF that(1,2)] ensure_dirs_present[OF that(3,4)[unfolded os_def]] by (simp add: os_def)
  have one: "restore_one os meta fs = Some (None, False, fs)" if "rejected_entry os meta"
    using restore_one_rejected[OF cwd that[unfolded os_def]] by (simp add: os_def)
  from nav cur new ren sel sel2 one
  show ?thesis by blast
qed

lemma pyos_dir_abs: "isabs pyos_dir"
  by code_simp

lemma sandbox_examples:
  "escapes_root pyos ''/etc''"
  "escapes_root pyos (path_join (current_path fe_start) (strip '' ../../x ''))"
  "escapes_root pyos (path_join (dirname ''/home/raven/PyOS/data/userfiles/notes.txt'') (strip ''../stolen.txt''))"
  "rejected_entry pyos meta_outside"
  "path_isdir fs_sandbox pyos_dir (TRASH_DIR pyos)" "path_isdir fs_sandbox pyos_dir (ROOT_DIR pyos)"
  by code_simp+

lemma strip_folder_name: "strip '' ../../x '' \<noteq> []" by code_simp
lemma strip_new_name: "strip ''../stolen.txt'' \<noteq> []" by code_simp

lemma sandbox_containment_posix_example:
  "isabs pyos_dir \<and> escapes_root pyos ''/etc''
   \<and> navigate pyos ''/etc'' True fe_start fs_sandbox =
        (None, show_dialog (Warning ''Blocked''
                 ''Navigation outside data/userfiles is not allowed.'') fe_start, fs_sandbox)
   \<and> current_path (fst (snd (navigate pyos ''/etc'' True fe_start fs_sandbox)))
        = current_path fe_start
   \<and> new_folder pyos ('' ../../x '', True) fe_start fs_sandbox =
        (None, show_dialog (Warning ''Blocked'' ''Cannot create folder outside sandbox.'') fe_start,
         fs_sandbox)
   \<and> rename_selected pyos (Some ''/home/raven/PyOS/data/userfiles/notes.txt'')
          (''../stolen.txt'', True) fe_start fs_sandbox =
        (None, show_dialog (Warning ''Blocked'' ''Cannot move/rename outside sandbox.'') fe_start,
         fs_sandbox)
   \<and> rejected_entry pyos meta_outside
   \<and> restore_one pyos meta_outside fs_sandbox = Some (None, False, fs_sandbox)
   \<and> restore_selected pyos [meta_outside] [] fs_sandbox = Some (None, [], fs_sandbox)"
proof -
  note a = sandbox_containment_posix[OF pyos_dir_abs, folded pyos_def, where p = "''/etc''" and push = True
      and fe = fe_start and fs = fs_sandbox and ok = True and name = "'' ../../x ''"
      and meta = meta_outside and metas = "[meta_outside]" and dialogs = "[]"]
  note b = sandbox_containment_posix[OF pyos_dir_abs, folded pyos_def, where fe = fe_start and fs = fs_sandbox
      and ok = True and name = "''../stolen.txt''"
      and sel = "''/home/raven/PyOS/data/userfiles/notes.txt''"]
  have ne: "''/home/raven/PyOS/data/userfiles/notes.txt'' \<noteq> []" by simp
  show ?thesis
    using a b pyos_dir_abs sandbox_examples strip_folder_name strip_new_name ne by simp
qed

section \<open>The sandbox check on Windows\<close>

lemma windows_os_sel:
  "os_path_join (windows_os ul cwd rest) = nt_join ul"
  "os_path_abspath (windows_os ul cwd rest) = nt_abspath ul cwd"
  "os_path_commonpath (windows_os ul cwd rest) = nt_commonpath ul"
  "os_path_dirname (windows_os ul cwd rest) = nt_dirname"
  by (simp_all add: windows_os_def)

lemma nt_facts:
  "nt_abspath ul (backslashes ''C:/PyOS'') (nt_join ul ''data'' ''userfiles'')
     = backslashes ''C:/PyOS/data/userfiles''"
  "nt_abspath ul (backslashes ''C:/PyOS'') (backslashes ''D:/x'') = backslashes ''D:/x''"
  "nt_commonpath ul (backslashes ''C:/PyOS/data/userfiles'') (backslashes ''D:/x'') = Inl ValueError"
  "nt_abspath ul (backslashes ''C:/PyOS'') (backslashes ''C:/Windows'') = backslashes ''C:/Windows''"
  "nt_commonpath ul (backslashes ''C:/PyOS/data/userfiles'') (backslashes ''C:/Windows'')
     = Inr (backslashes ''C:/'')"
  "strip (backslashes ''D:/x'') = backslashes ''D:/x''"
  "backslashes ''C:/'' \<noteq> backslashes ''C:/PyOS/data/userfiles''"
  "backslashes ''D:/x'' \<noteq> []"
  "backslashes ''C:/PyOS/data/userfiles/notes.txt'' \<noteq> []"
  by code_simp+

lemma nt_splitdrive_other:
  "nt_splitdrive [CHR ''D'', CHR '':'', CHR 0x5C, CHR ''x''] = (''D:'', [CHR 0x5C, CHR ''x''])"
  by code_simp

lemma nt_join_other_drive: "nt_join ul a (backslashes ''D:/x'') = backslashes ''D:/x''"
proof -
  have b: "backslashes ''D:/x'' = [CHR ''D'', CHR '':'', CHR 0x5C, CHR ''x'']" by code_simp
  show ?thesis
    unfolding b
    by (cases "nt_splitdrive a") (simp add: nt_join_def nt_splitdrive_other is_sep_def Let_def)
qed

lemma windows_within_root:
  "within_root (windows_pyos ul rest) (backslashes ''D:/x'') = Inl ValueError"
  "safe_within_root (windows_pyos ul rest) (backslashes ''D:/x'') = Inl ValueError"
  "within_root (windows_pyos ul rest) (backslashes ''C:/Windows'') = Inr False"
  by (simp_all add: within_root_def safe_within_root_def ROOT_DIR_def windows_pyos_def
      windows_os_sel nt_facts Let_def)

text \<open>
  Claim C1 on Windows, for a PyOS process in \<open>C:\PyOS\<close> and the path \<open>D:\x\<close>. The
  resolved absolute form of the path does not have the sandbox root as its common-path
  prefix, yet no "Blocked" warning is shown: \<open>os.path.commonpath\<close> raises \<open>ValueError\<close>
  for paths on different drives, \<open>within_root\<close> and \<open>safe_within_root\<close> let it pass, and
  so \<open>navigate\<close>, the address bar (\<open>on_go\<close>), \<open>new_folder\<close> and \<open>rename_selected\<close> raise
  it, with the window and the file system as they were; and the restore loop is left
  at such an entry instead of skipping it, so the entries selected after it are not
  restored. A path outside the root on the drive of the root is blocked with the
  warning.
\<close>

theorem other_drive_raises_instead_of_warning:
  "escapes_root (windows_pyos ul rest) (backslashes ''D:/x'')
   \<and> navigate (windows_pyos ul rest) (backslashes ''D:/x'') push fe fs = (Some ValueError, fe, fs)
   \<and> on_go (windows_pyos ul rest) (fe\<lparr>fe_address := backslashes ''D:/x''\<rparr>) fs
        = (Some ValueError, fe\<lparr>fe_address := backslashes ''D:/x''\<rparr>, fs)
   \<and> new_folder (windows_pyos ul rest) (backslashes ''D:/x'', True) fe fs = (Some ValueError, fe, fs)
   \<and> rename_selected (windows_pyos ul rest)
          (Some (backslashes ''C:/PyOS/data/userfiles/notes.txt'')) (backslashes ''D:/x'', True) fe fs
        = (Some ValueError, fe, fs)
   \<and> restore_one (windows_pyos ul rest) meta_other_drive fs = Some (Some ValueError, False, fs)
   \<and> restore_selected (windows_pyos ul rest) (meta_other_drive # metas) dialogs fs
        = Some (Some ValueError, dialogs, fs)
   \<and> navigate (windows_pyos ul rest) (backslashes ''C:/Windows'') push fe fs
        = (None, show_dialog (Warning ''Blocked''
                   ''Navigation outside data/userfiles is not allowed.'') fe, fs)"
proof -
  let ?os = "windows_pyos ul rest"
  have sel: "os_path_join ?os = nt_join ul" "os_path_abspath ?os = nt_abspath ul (backslashes ''C:/PyOS'')"
    "os_path_dirname ?os = nt_dirname"
    by (simp_all add: windows_pyos_def windows_os_sel)
  have esc: "escapes_root ?os (backslashes ''D:/x'')"
    by (simp add: escapes_root_def ROOT_DIR_def windows_pyos_def windows_os_sel nt_facts)
  have nav: "navigate ?os (backslashes ''D:/x'') push fe fs = (Some ValueError, fe, fs)"
    by (simp add: navigate_def sel nt_facts windows_within_root)
  have go: "on_go ?os (fe\<lparr>fe_address := backslashes ''D:/x''\<rparr>) fs
        = (Some ValueError, fe\<lparr>fe_address := backslashes ''D:/x''\<rparr>, fs)"
    by (simp add: on_go_def sel nt_facts windows_within_root)
  have new: "new_folder ?os (backslashes ''D:/x'', True) fe fs = (Some ValueError, fe, fs)"
    by (simp add: new_folder_def sel nt_facts nt_join_other_drive windows_within_root)
  have ren: "rename_selected ?os
          (Some (backslashes ''C:/PyOS/data/userfiles/notes.txt'')) (backslashes ''D:/x'', True) fe fs
        = (Some ValueError, fe, fs)"
    by (simp add: rename_selected_def sel nt_facts nt_join_other_drive windows_within_root)
  have one: "restore_one ?os meta_other_drive fs = Some (Some ValueError, False, fs)"
    by (simp add: restore_one_def meta_other_drive_def nt_facts windows_within_root)
  have all: "restore_selected ?os (meta_other_drive # metas) dialogs fs
        = Some (Some ValueError, dialogs, fs)"
    by (simp add: restore_selected_def one)
  have blocked: "navigate ?os (backslashes ''C:/Windows'') push fe fs
        = (None, show_dialog (Warning ''Blocked''
                   ''Navigation outside data/userfiles is not allowed.'') fe, fs)"
    by (simp add: navigate_def sel nt_facts windows_within_root)
  from esc nav go new ren one all blocked show ?thesis by blast
qed

theorem other_drive_raises_instead_of_warning_witness:
  "escapes_root (windows_pyos (\<lambda>s. s) pyos) (backslashes ''D:/x'')
   \<and> navigate (windows_pyos (\<lambda>s. s) pyos) (backslashes ''D:/x'') True fe_start fs_sandbox
        = (Some ValueError, fe_start, fs_sandbox)
   \<and> on_go (windows_pyos (\<lambda>s. s) pyos) (fe_start\<lparr>fe_address := backslashes ''D:/x''\<rparr>) fs_sandbox
        = (Some ValueError, fe_start\<lparr>fe_address := backslashes ''D:/x''\<rparr>, fs_sandbox)
   \<and> new_folder (windows_pyos (\<lambda>s. s) pyos) (backslashes ''D:/x'', True) fe_start fs_sandbox
        = (Some ValueError, fe_start, fs_sandbox)
   \<and> rename_selected (windows_pyos (\<lambda>s. s) pyos)
          (Some (backslashes ''C:/PyOS/data/userfiles/notes.txt'')) (backslashes ''D:/x'', True)
          fe_start fs_sandbox
        = (Some ValueError, fe_start, fs_sandbox)
   \<and> restore_one (windows_pyos (\<lambda>s. s) pyos) meta_other_drive fs_sandbox
        = Some (Some ValueError, False, fs_sandbox)
   \<and> restore_selected (windows_pyos (\<lambda>s. s) pyos) [meta_other_drive, meta_notes] [] fs_sandbox
        = Some (Some ValueError, [], fs_sandbox)
   \<and> navigate (windows_pyos (\<lambda>s. s) pyos) (backslashes ''C:/Windows'') True fe_start fs_sandbox
        = (None, show_dialog (Warning ''Blocked''
                   ''Navigation outside data/userfiles is not allowed.'') fe_start, fs_sandbox)"
  using other_drive_raises_instead_of_warning[of "\<lambda>s. s" pyos True fe_start fs_sandbox
      "[meta_notes]" "[]"]
  by simp

section \<open>Trash round trip\<close>

text \<open>
  Claim C2 at a file named \<open>metadata.json\<close>. \<open>move_to_trash\<close> writes the record
  \<open>metadata.json\<close> into the fresh trash folder and then moves the file onto the same
  name: the record is replaced by the file. The file has left the sandbox, and the
  trash folder no longer yields an entry that the recycle bin could list or restore.
\<close>

theorem trash_clobbers_metadata_record:
  "fst deleted_metadata_json = None
   \<and> lookup (snd deleted_metadata_json) (userfiles @ [''metadata.json'']) = None
   \<and> lookup (snd deleted_metadata_json) (trash @ [trash_id]) = Some Dir
   \<and> lookup (snd deleted_metadata_json) (trash @ [trash_id, ''metadata.json''])
        = Some (File (Raw ''my own data''))
   \<and> trash_item pyos trash_id (snd deleted_metadata_json) = None"
  by code_simp

lemma notes_round_trip_example:
  "fst deleted_notes = None
   \<and> lookup (snd deleted_notes) (userfiles @ [''notes.txt'']) = None
   \<and> trash_item pyos trash_id (snd deleted_notes) = Some meta_notes
   \<and> map_option (\<lambda>(e, r, fs). (e, r, lookup fs (userfiles @ [''notes.txt'']),
                                   lookup fs (trash @ [trash_id]),
                                   lookup fs (trash @ [trash_id, ''notes.txt'']),
                                   lookup fs (trash @ [trash_id, ''metadata.json''])))
        (restore_one pyos meta_notes (snd deleted_notes))
      = Some (None, True, Some (File (Raw ''hello'')), None, None, None)"
  by code_simp

section \<open>The calculator's evaluator\<close>

lemma not_arithmetic_raises: "\<not> arithmetic tree \<Longrightarrow> \<exists>e. eval_ast ar tree = Inl e"
proof (induction ar tree rule: eval_ast.induct)
  case (6 ar left oper right)
  then show ?case by (auto split: sum.splits)
next
  case (7 ar oper operand)
  then show ?case by (auto split: sum.splits)
qed simp_all

lemma has_syntax_not_arithmetic:
  "has_node is_name_call_attribute tree \<Longrightarrow> \<not> arithmetic tree"
  by (induction tree rule: arithmetic.induct) auto

lemma normalized_examples:
  "normalized (strip ''10/0'') = ''10/0''" "normalized (strip import_os) = import_os"
  "import_os \<noteq> []"
  by code_simp+


text \<open>
  Claim C3. Whatever Python's floating-point arithmetic is, and with \<open>ast.parse\<close>
  giving its trees for the three texts: \<open>safe_eval("2+2*2")\<close> returns 6;
  \<open>safe_eval("10/0")\<close> raises \<open>ZeroDivisionError\<close> and \<open>evaluate\<close> then displays
  \<open>Error\<close>; \<open>safe_eval("__import__('os')")\<close> raises and \<open>evaluate\<close> displays \<open>Error\<close>. For
  every text: when \<open>ast.parse\<close> raises, \<open>safe_eval\<close> raises; when the tree has a name, a
  call or an attribute access anywhere, or any other node that is not a number or an
  operator of \<open>_ALLOWED\<close>, \<open>safe_eval\<close> raises; so a text for which \<open>safe_eval\<close> returns a
  value is a tree of numbers and allowed operators only; and whenever \<open>safe_eval\<close>
  raises on the normalised display text, \<open>evaluate\<close> sets the display to \<open>Error\<close>.
\<close>

theorem safe_eval_restricted_arithmetic:
  assumes p1: "parse ''2+2*2''
                 = Inr (BinOp (Constant (CInt 2)) Add (BinOp (Constant (CInt 2)) Mult (Constant (CInt 2))))"
      and p2: "parse ''10/0'' = Inr (BinOp (Constant (CInt 10)) Div (Constant (CInt 0)))"
      and p3: "parse import_os = Inr (Call (Name ''__import__'') [Constant (CStr ''os'')])"
  shows "safe_eval parse ar ''2+2*2'' = Inr (IntV 6)
       \<and> safe_eval parse ar ''10/0'' = Inl ZeroDivisionError
       \<and> evaluate parse ar ''10/0'' = ''Error''
       \<and> safe_eval parse ar import_os = Inl ValueError
       \<and> evaluate parse ar import_os = ''Error''
       \<and> (\<forall>src e. parse src = Inl e \<longrightarrow> safe_eval parse ar src = Inl e)
       \<and> (\<forall>src tree. parse src = Inr tree \<and> has_node is_name_call_attribute tree
             \<longrightarrow> (\<exists>e. safe_eval parse ar src = Inl e))
       \<and> (\<forall>src tree. parse src = Inr tree \<and> \<not> arithmetic tree
             \<longrightarrow> (\<exists>e. safe_eval parse ar src = Inl e))
       \<and> (\<forall>src v. safe_eval parse ar src = Inr v
             \<longrightarrow> (\<exists>tree. parse src = Inr tree \<and> arithmetic tree))
       \<and> (\<forall>display e. normalized (strip display) \<noteq> []
               \<and> safe_eval parse ar (normalized (strip display)) = Inl e
             \<longrightarrow> evaluate parse ar display = ''Error'')"
proof -
  have six: "safe_eval parse ar ''2+2*2'' = Inr (IntV 6)"
    by (simp add: safe_eval_def p1 ALLOWED_def apply_binop_def)
  have zero: "safe_eval parse ar ''10/0'' = Inl ZeroDivisionError"
    by (simp add: safe_eval_def p2 ALLOWED_def apply_binop_def)
  have imp: "safe_eval parse ar import_os = Inl ValueError"
    by (simp add: safe_eval_def p3)
  have err: "evaluate parse ar shown = ''Error''"
    if "normalized (strip shown) \<noteq> []" "safe_eval parse ar (normalized (strip shown)) = Inl e"
    for shown e
    using that by (simp add: evaluate_def Let_def)
  have e1: "evaluate parse ar ''10/0'' = ''Error''"
    using err[of "''10/0''" ZeroDivisionError] zero by (simp add: normalized_examples)
  have e2: "evaluate parse ar import_os = ''Error''"
    using err[of import_os ValueError] imp by (simp add: normalized_examples)
  have syn: "safe_eval parse ar src = Inl e" if "parse src = Inl e" for src e
    using that by (simp add: safe_eval_def)
  have na: "\<exists>e. safe_eval parse ar src = Inl e" if "parse src = Inr tree" "\<not> arithmetic tree"
    for src tree
    using that not_arithmetic_raises[of tree ar] by (simp add: safe_eval_def)
  have nm: "\<exists>e. safe_eval parse ar src = Inl e"
    if "parse src = Inr tree" "has_node is_name_call_attribute tree" for src tree
    using na[OF that(1)] has_syntax_not_arithmetic[OF that(2)] by simp
  have only: "\<exists>tree. parse src = Inr tree \<and> arithmetic tree"
    if "safe_eval parse ar src = Inr v" for src v
  proof (cases "parse src")
    case (Inl e)
    then show ?thesis using that by (simp add: safe_eval_def)
  next
    case (Inr tree)
    then show ?thesis using that na[OF Inr] by (cases "arithmetic tree") auto
  qed
  from six zero e1 imp e2 syn nm na only err show ?thesis by blast
qed

lemma claim_texts_parse_results:
  "claim_texts_parse ''2+2*2''
     = Inr (BinOp (Constant (CInt 2)) Add (BinOp (Constant (CInt 2)) Mult (Constant (CInt 2))))"
  "claim_texts_parse ''10/0'' = Inr (BinOp (Constant (CInt 10)) Div (Constant (CInt 0)))"
  "claim_texts_parse import_os = Inr (Call (Name ''__import__'') [Constant (CStr ''os'')])"
  by code_simp+

theorem safe_eval_restricted_arithmetic_witness:
  "safe_eval claim_texts_parse integers_only ''2+2*2'' = Inr (IntV 6)
   \<and> safe_eval claim_texts_parse integers_only ''10/0'' = Inl ZeroDivisionError
   \<and> evaluate claim_texts_parse integers_only ''10/0'' = ''Error''
   \<and> safe_eval claim_texts_parse integers_only import_os = Inl ValueError
   \<and> evaluate claim_texts_parse integers_only import_os = ''Error''
   \<and> evaluate claim_texts_parse integers_only ''2+2*2'' = ''6''"
proof -
  have six: "evaluate claim_texts_parse integers_only ''2+2*2'' = ''6''" by code_simp
  show ?thesis
    using safe_eval_restricted_arithmetic[OF claim_texts_parse_results, of integers_only] six
    by simp
qed

end
